theory Spec2Isabelle
  imports Complex_Main "HOL-Library.Char_ord" "HOL-Library.List_Lexorder"
begin

section \<open>SQL helpers\<close>

text \<open>
  Timestamps and other TEXT columns are strings; SQLite compares TEXT with the BINARY
  collation, that is bytewise lexicographically, which is the order of \<open>string\<close> given by
  the list lexicographic order over the byte order of characters.

  A table is the list of its rows in rowid (insertion) order.  \<open>ORDER BY k ASC\<close> is a
  stable sort by the key, \<open>LIMIT n\<close> keeps the first \<open>n\<close> rows, and a negative \<open>n\<close>
  means no limit, as in SQLite.
\<close>

definition sql_limit :: "int \<Rightarrow> 'a list \<Rightarrow> 'a list" where
  "sql_limit n rows = (if n < 0 then rows else take (nat n) rows)"

definition ascii_upper :: "char \<Rightarrow> char" where
  "ascii_upper c =
     (if 97 \<le> (of_char c :: nat) \<and> (of_char c :: nat) \<le> 122
      then char_of ((of_char c :: nat) - 32) else c)"

text \<open>
  \<open>x LIKE 'p%'\<close> for a pattern \<open>p\<close> without wildcards: \<open>x\<close> starts with \<open>p\<close>, where LIKE
  compares ASCII letters without regard to case (SQLite's default; the store never sets
  \<open>case_sensitive_like\<close>).
\<close>

definition sql_like_prefix :: "string \<Rightarrow> string \<Rightarrow> bool" where
  "sql_like_prefix p x = (map ascii_upper (take (length p) x) = map ascii_upper p)"

text \<open>\<open>COALESCE(a, b)\<close> on a nullable parameter and a nullable column.\<close>

definition coalesce :: "'a option \<Rightarrow> 'a option \<Rightarrow> 'a option" where
  "coalesce a b = (case a of Some v \<Rightarrow> Some v | None \<Rightarrow> b)"

section \<open>Pipeline types (types.ts, store/types.ts)\<close>

datatype doc_status = discovered | downloaded_ok | download_failed | extracted_ok | extracted_failed

datatype download_status = DR_downloaded_ok | DR_download_failed | DR_skipped

datatype extraction_status = ER_extracted_ok | ER_extracted_failed | ER_skipped

record DocumentDiscoveredItem =
  di_docId :: string
  di_url :: string
  di_title :: string
  di_year :: "int option"
  di_month :: "string option"
  di_sourcePageUrl :: string
  di_discoveredAt :: string

record DownloadResult =
  dr_docId :: string
  dr_url :: string
  dr_resolvedUrl :: "string option"
  dr_status :: download_status
  dr_sha256 :: "string option"
  dr_bytes :: "int option"
  dr_contentType :: "string option"
  dr_rawLocation :: "string option"
  dr_etag :: "string option"
  dr_lastModified :: "string option"
  dr_error :: "string option"
  dr_attempt :: int
  dr_downloadedAt :: string

record ExtractionResult =
  er_docId :: string
  er_status :: extraction_status
  er_pageCount :: "int option"
  er_textLocation :: "string option"
  er_tablesLocation :: "string option"
  er_error :: "string option"
  er_attempt :: int
  er_extractedAt :: string

record DownloadWorkItem =
  wi_docId :: string
  wi_url :: string
  wi_title :: string
  wi_attempt :: int

section \<open>The documents table (sqliteStore.ts)\<close>

text \<open>One row of \<open>documents\<close>; a nullable column is an option.\<close>

record document =
  docId :: string
  url :: string
  title :: string
  year :: "int option"
  month :: "string option"
  sourcePageUrl :: string
  firstSeenAt :: string
  lastSeenAt :: string
  lastStatus :: "doc_status option"
  sha256 :: "string option"
  bytes :: "int option"
  contentType :: "string option"
  rawLocation :: "string option"
  extractedTextLocation :: "string option"
  extractedTablesLocation :: "string option"
  error :: "string option"
  etag :: "string option"
  lastModified :: "string option"
  lastCheckedAt :: "string option"
  lastDownloadAt :: "string option"
  attemptsDownload :: int
  attemptsExtract :: int
  updatedAt :: string

text \<open>\<open>UPDATE documents SET ... WHERE docId = k\<close>.\<close>

definition update_doc :: "string \<Rightarrow> (document \<Rightarrow> document) \<Rightarrow> document list \<Rightarrow> document list" where
  "update_doc k f docs = map (\<lambda>d. if docId d = k then f d else d) docs"

text \<open>The row with a given primary key, if any.\<close>

definition get_doc :: "document list \<Rightarrow> string \<Rightarrow> document option" where
  "get_doc docs k = find (\<lambda>d. docId d = k) docs"

text \<open>
  \<open>upsertDiscovered\<close>: \<open>now\<close> is \<open>new Date().toISOString()\<close>.  The inserted row takes the
  defaults of the schema for the columns the INSERT does not name.  \<open>discoveredAt || now\<close>
  falls back to \<open>now\<close> for the empty string.
\<close>

definition upsertDiscovered :: "string \<Rightarrow> DocumentDiscoveredItem \<Rightarrow> document list \<Rightarrow> document list" where
  "upsertDiscovered now item docs =
     (let seen = (if di_discoveredAt item = [] then now else di_discoveredAt item) in
      if di_docId item \<in> set (map docId docs)
      then update_doc (di_docId item)
             (\<lambda>d. d\<lparr> url := di_url item, title := di_title item, year := di_year item,
                     month := di_month item, sourcePageUrl := di_sourcePageUrl item,
                     lastSeenAt := seen, updatedAt := now \<rparr>) docs
      else docs @
        [\<lparr> docId = di_docId item, url = di_url item, title = di_title item,
            year = di_year item, month = di_month item,
            sourcePageUrl = di_sourcePageUrl item,
            firstSeenAt = di_discoveredAt item, lastSeenAt = seen,
            lastStatus = Some discovered,
            sha256 = None, bytes = None, contentType = None, rawLocation = None,
            extractedTextLocation = None, extractedTablesLocation = None,
            error = None, etag = None, lastModified = None, lastCheckedAt = None,
            lastDownloadAt = None, attemptsDownload = 0, attemptsExtract = 0,
            updatedAt = now \<rparr>])"

text \<open>The WHERE clause of the non-force branch of \<open>listPendingDownloads\<close>.\<close>

definition pending_download :: "int \<Rightarrow> document \<Rightarrow> bool" where
  "pending_download maxAttempts d =
     ((lastStatus d = Some discovered
       \<or> (lastStatus d = Some download_failed
            \<and> (case error d of None \<Rightarrow> True | Some e \<Rightarrow> \<not> sql_like_prefix ''HTTP 404'' e))
       \<or> (lastStatus d = Some downloaded_ok \<and> (rawLocation d = None \<or> sha256 d = None))
       \<or> lastStatus d = None)
      \<and> attemptsDownload d < maxAttempts)"

definition to_work_item :: "document \<Rightarrow> DownloadWorkItem" where
  "to_work_item row =
     \<lparr> wi_docId = docId row, wi_url = url row, wi_title = title row,
        wi_attempt = attemptsDownload row + 1 \<rparr>"

definition pending_download_rows :: "int \<Rightarrow> bool \<Rightarrow> int \<Rightarrow> document list \<Rightarrow> document list" where
  "pending_download_rows limit force maxAttempts docs =
     (if force then sql_limit limit (sort_key updatedAt docs)
      else sql_limit limit (sort_key updatedAt (filter (pending_download maxAttempts) docs)))"

definition listPendingDownloads :: "int \<Rightarrow> bool \<Rightarrow> int \<Rightarrow> document list \<Rightarrow> DownloadWorkItem list" where
  "listPendingDownloads limit force maxAttempts docs =
     map to_work_item (pending_download_rows limit force maxAttempts docs)"

definition markRemoteUnchanged ::
  "string \<Rightarrow> string \<Rightarrow> string option \<Rightarrow> string option \<Rightarrow> document list \<Rightarrow> document list" where
  "markRemoteUnchanged k checkedAt e lm docs =
     update_doc k
       (\<lambda>d. d\<lparr> etag := coalesce e (etag d), lastModified := coalesce lm (lastModified d),
               lastCheckedAt := Some checkedAt, updatedAt := checkedAt \<rparr>) docs"

definition markRemoteChanged ::
  "string \<Rightarrow> string \<Rightarrow> string option \<Rightarrow> string option \<Rightarrow> document list \<Rightarrow> document list" where
  "markRemoteChanged k checkedAt e lm docs =
     update_doc k
       (\<lambda>d. d\<lparr> etag := coalesce e (etag d), lastModified := coalesce lm (lastModified d),
               lastCheckedAt := Some checkedAt, lastStatus := Some discovered,
               error := Some ''remote_changed'', updatedAt := checkedAt \<rparr>) docs"

definition markRawMissing :: "string \<Rightarrow> string \<Rightarrow> document list \<Rightarrow> document list" where
  "markRawMissing k checkedAt docs =
     update_doc k
       (\<lambda>d. d\<lparr> lastStatus := Some discovered, rawLocation := None, sha256 := None,
               bytes := None, contentType := None, error := Some ''missing_local_file'',
               updatedAt := checkedAt \<rparr>) docs"

definition download_status_column :: "download_status \<Rightarrow> doc_status" where
  "download_status_column s =
     (if s = DR_downloaded_ok then downloaded_ok
      else if s = DR_skipped then downloaded_ok else download_failed)"

definition markDownloadResult :: "DownloadResult \<Rightarrow> document list \<Rightarrow> document list" where
  "markDownloadResult result docs =
     update_doc (dr_docId result)
       (\<lambda>d. d\<lparr> url := dr_url result,
               sha256 := coalesce (dr_sha256 result) (sha256 d),
               bytes := coalesce (dr_bytes result) (bytes d),
               contentType := coalesce (dr_contentType result) (contentType d),
               rawLocation := coalesce (dr_rawLocation result) (rawLocation d),
               etag := coalesce (dr_etag result) (etag d),
               lastModified := coalesce (dr_lastModified result) (lastModified d),
               lastCheckedAt := Some (dr_downloadedAt result),
               lastDownloadAt :=
                 (if download_status_column (dr_status result) = downloaded_ok
                  then Some (dr_downloadedAt result) else lastDownloadAt d),
               error := dr_error result,
               attemptsDownload :=
                 (if dr_attempt result > attemptsDownload d then dr_attempt result
                  else attemptsDownload d + 1),
               lastStatus := Some (download_status_column (dr_status result)),
               updatedAt := dr_downloadedAt result \<rparr>) docs"

definition extraction_status_column :: "extraction_status \<Rightarrow> doc_status" where
  "extraction_status_column s =
     (if s = ER_extracted_ok then extracted_ok
      else if s = ER_skipped then extracted_ok else extracted_failed)"

definition markExtractionResult :: "ExtractionResult \<Rightarrow> document list \<Rightarrow> document list" where
  "markExtractionResult result docs =
     update_doc (er_docId result)
       (\<lambda>d. d\<lparr> extractedTextLocation := coalesce (er_textLocation result) (extractedTextLocation d),
               extractedTablesLocation := coalesce (er_tablesLocation result) (extractedTablesLocation d),
               error := er_error result,
               attemptsExtract :=
                 (if er_attempt result > attemptsExtract d then er_attempt result
                  else attemptsExtract d + 1),
               lastStatus := Some (extraction_status_column (er_status result)),
               updatedAt := er_extractedAt result \<rparr>) docs"

section \<open>Store operations as a step function\<close>

text \<open>The operations of the store that write to \<open>documents\<close>, with their arguments.\<close>

datatype store_op =
    UpsertDiscovered string DocumentDiscoveredItem
  | MarkDownloadResult DownloadResult
  | MarkExtractionResult ExtractionResult
  | MarkRemoteUnchanged string string "string option" "string option"
  | MarkRemoteChanged string string "string option" "string option"
  | MarkRawMissing string string

fun apply_store_op :: "store_op \<Rightarrow> document list \<Rightarrow> document list" where
  "apply_store_op (UpsertDiscovered now item) docs = upsertDiscovered now item docs"
| "apply_store_op (MarkDownloadResult r) docs = markDownloadResult r docs"
| "apply_store_op (MarkExtractionResult r) docs = markExtractionResult r docs"
| "apply_store_op (MarkRemoteUnchanged k t e lm) docs = markRemoteUnchanged k t e lm docs"
| "apply_store_op (MarkRemoteChanged k t e lm) docs = markRemoteChanged k t e lm docs"
| "apply_store_op (MarkRawMissing k t) docs = markRawMissing k t docs"

section \<open>The extract_jobs table (sqliteStore.ts)\<close>

datatype job_status = job_queued | job_leased | job_completed | job_failed

record ExtractJobRecord =
  jr_jobId :: string
  jr_runId :: string
  jr_docId :: string
  jr_rawPdfPath :: string
  jr_fileSha256 :: "string option"
  jr_attempt :: int
  jr_submittedAt :: string

record ClaimedExtractJob =
  cj_jobId :: string
  cj_runId :: string
  cj_docId :: string
  cj_rawPdfPath :: string
  cj_fileSha256 :: "string option"
  cj_attempt :: int
  cj_submittedAt :: string
  cj_leaseUntil :: string

record extract_job =
  jobId :: string
  runId :: string
  j_docId :: string
  rawPdfPath :: string
  fileSha256 :: "string option"
  j_attempt :: int
  submittedAt :: string
  j_status :: job_status
  leaseUntil :: "string option"
  finishedAt :: "string option"
  j_error :: "string option"
  resultRef :: "string option"

definition update_job :: "string \<Rightarrow> (extract_job \<Rightarrow> extract_job) \<Rightarrow> extract_job list \<Rightarrow> extract_job list" where
  "update_job k f jobs = map (\<lambda>j. if jobId j = k then f j else j) jobs"

definition getExtractJob :: "extract_job list \<Rightarrow> string \<Rightarrow> extract_job option" where
  "getExtractJob jobs k = find (\<lambda>j. jobId j = k) jobs"

text \<open>\<open>INSERT ... ON CONFLICT(jobId) DO NOTHING\<close>.\<close>

definition enqueueExtractJob :: "ExtractJobRecord \<Rightarrow> extract_job list \<Rightarrow> extract_job list" where
  "enqueueExtractJob job jobs =
     (if jr_jobId job \<in> set (map jobId jobs) then jobs
      else jobs @
        [\<lparr> jobId = jr_jobId job, runId = jr_runId job, j_docId = jr_docId job,
            rawPdfPath = jr_rawPdfPath job, fileSha256 = jr_fileSha256 job,
            j_attempt = jr_attempt job, submittedAt = jr_submittedAt job,
            j_status = job_queued, leaseUntil = None, finishedAt = None,
            j_error = None, resultRef = None \<rparr>])"

text \<open>
  The WHERE clause of \<open>claimPendingExtractJobs\<close>; \<open>now\<close> is \<open>new Date().toISOString()\<close>.
  A comparison with a NULL \<open>leaseUntil\<close> is not true.
\<close>

definition claimable :: "string \<Rightarrow> extract_job \<Rightarrow> bool" where
  "claimable now j =
     (j_status j = job_queued
      \<or> (j_status j = job_leased \<and> (case leaseUntil j of None \<Rightarrow> False | Some l \<Rightarrow> l < now)))"

definition to_claimed :: "string \<Rightarrow> extract_job \<Rightarrow> ClaimedExtractJob" where
  "to_claimed lu row =
     \<lparr> cj_jobId = jobId row, cj_runId = runId row, cj_docId = j_docId row,
        cj_rawPdfPath = rawPdfPath row, cj_fileSha256 = fileSha256 row,
        cj_attempt = j_attempt row, cj_submittedAt = submittedAt row, cj_leaseUntil = lu \<rparr>"

text \<open>The transaction: one UPDATE by jobId for each selected row.\<close>

definition lease_rows :: "string \<Rightarrow> extract_job list \<Rightarrow> extract_job list \<Rightarrow> extract_job list" where
  "lease_rows lu jobRows jobs =
     foldl (\<lambda>js row. update_job (jobId row)
                        (\<lambda>j. j\<lparr> j_status := job_leased, leaseUntil := Some lu \<rparr>) js)
           jobs jobRows"

definition claimPendingExtractJobs ::
  "string \<Rightarrow> int \<Rightarrow> string \<Rightarrow> extract_job list \<Rightarrow> ClaimedExtractJob list \<times> extract_job list" where
  "claimPendingExtractJobs now limit lu jobs =
     (let rows = sql_limit limit (sort_key submittedAt (filter (claimable now) jobs)) in
      if rows = [] then ([], jobs)
      else (map (to_claimed lu) rows, lease_rows lu rows jobs))"

section \<open>Pending extracts (sqliteStore.ts)\<close>

record ExtractWorkItem =
  ewi_docId :: string
  ewi_rawLocation :: string
  ewi_attempt :: int

text \<open>The WHERE clause of the non-force branch of \<open>listPendingExtracts\<close>.\<close>

definition pending_extract :: "int \<Rightarrow> document \<Rightarrow> bool" where
  "pending_extract maxAttempts d =
     (rawLocation d \<noteq> None
      \<and> attemptsExtract d < maxAttempts
      \<and> (lastStatus d = Some downloaded_ok \<or> lastStatus d = Some extracted_failed)
      \<and> (lastStatus d \<noteq> None \<and> lastStatus d \<noteq> Some extracted_ok))"

definition to_extract_item :: "document \<Rightarrow> ExtractWorkItem option" where
  "to_extract_item row =
     map_option (\<lambda>l. \<lparr> ewi_docId = docId row, ewi_rawLocation = l,
                         ewi_attempt = attemptsExtract row + 1 \<rparr>) (rawLocation row)"

definition listPendingExtracts :: "int \<Rightarrow> bool \<Rightarrow> int \<Rightarrow> document list \<Rightarrow> ExtractWorkItem list" where
  "listPendingExtracts limit force maxAttempts docs =
     (if force
      then List.map_filter to_extract_item
             (sql_limit limit (sort_key updatedAt (filter (\<lambda>d. rawLocation d \<noteq> None) docs)))
      else List.map_filter to_extract_item
             (sql_limit limit (sort_key updatedAt (filter (pending_extract maxAttempts) docs))))"

section \<open>Submitting extract jobs (asyncOrchestrator.ts)\<close>

record ExtractRequestMessageV1 =
  rq_version :: string
  rq_type :: string
  rq_jobId :: string
  rq_runId :: string
  rq_docId :: string
  rq_rawPdfPath :: string
  rq_fileSha256 :: "string option"
  rq_attempt :: int
  rq_submittedAt :: string

record SubmitExtractJobsDeps =
  sd_runId :: string
  sd_force :: "bool option"
  sd_limit :: int
  sd_maxExtractAttempts :: int

text \<open>
  \<open>sha256_hex s\<close> stands for \<open>crypto.createHash("sha256").update(s).digest("hex")\<close>, a
  function of the Node library.
\<close>

definition createExtractJobId :: "(string \<Rightarrow> string) \<Rightarrow> string \<Rightarrow> string \<Rightarrow> string" where
  "createExtractJobId sha256_hex d p = take 24 (sha256_hex (d @ ''|'' @ p))"

text \<open>
  The loop of \<open>submitExtractJobs\<close>.  The queue is the interface \<open>AsyncTableQueue\<close>: its
  state is any type and \<open>publishRequest\<close> is given.  \<open>clock i\<close> is
  \<open>new Date().toISOString()\<close> in the iteration for the \<open>i\<close>-th item.
\<close>

fun submit_loop ::
  "(string \<Rightarrow> string) \<Rightarrow> (ExtractRequestMessageV1 \<Rightarrow> 'q \<Rightarrow> 'q) \<Rightarrow> string \<Rightarrow> (nat \<Rightarrow> string)
   \<Rightarrow> nat \<Rightarrow> ExtractWorkItem list \<Rightarrow> extract_job list \<times> 'q \<times> int
   \<Rightarrow> extract_job list \<times> 'q \<times> int" where
  "submit_loop sha256_hex publishRequest rid clock i [] st = st"
| "submit_loop sha256_hex publishRequest rid clock i (item # items) (jobs, q, submitted) =
     (let jid = createExtractJobId sha256_hex (ewi_docId item) (ewi_rawLocation item);
          stamp = clock i;
          jobs' = enqueueExtractJob
                    \<lparr> jr_jobId = jid, jr_runId = rid, jr_docId = ewi_docId item,
                       jr_rawPdfPath = ewi_rawLocation item, jr_fileSha256 = None,
                       jr_attempt = ewi_attempt item, jr_submittedAt = stamp \<rparr> jobs;
          q' = publishRequest
                 \<lparr> rq_version = ''v1'', rq_type = ''tables.extract.request'', rq_jobId = jid,
                    rq_runId = rid, rq_docId = ewi_docId item,
                    rq_rawPdfPath = ewi_rawLocation item, rq_fileSha256 = None,
                    rq_attempt = ewi_attempt item, rq_submittedAt = stamp \<rparr> q
      in submit_loop sha256_hex publishRequest rid clock (Suc i) items (jobs', q', submitted + 1))"

definition submitExtractJobs ::
  "(string \<Rightarrow> string) \<Rightarrow> (ExtractRequestMessageV1 \<Rightarrow> 'q \<Rightarrow> 'q) \<Rightarrow> (nat \<Rightarrow> string)
   \<Rightarrow> SubmitExtractJobsDeps \<Rightarrow> document list \<Rightarrow> extract_job list \<Rightarrow> 'q
   \<Rightarrow> extract_job list \<times> 'q \<times> int" where
  "submitExtractJobs sha256_hex publishRequest clock deps docs jobs q =
     (let pending = listPendingExtracts (sd_limit deps)
                      (case sd_force deps of Some b \<Rightarrow> b | None \<Rightarrow> False)
                      (sd_maxExtractAttempts deps) docs
      in submit_loop sha256_hex publishRequest (sd_runId deps) clock 0 pending (jobs, q, 0))"

section \<open>Collecting extract results (asyncMessages.ts, asyncOrchestrator.ts)\<close>

datatype result_status = result_ok | result_no_tables | result_failed

record ExtractResultMessageV1 =
  rs_version :: string
  rs_type :: string
  rs_jobId :: string
  rs_docId :: string
  rs_status :: result_status
  rs_errorCode :: "string option"
  rs_tablesLocation :: "string option"
  rs_tableCount :: "int option"
  rs_engine :: "string option"
  rs_error :: "string option"
  rs_durationMs :: "int option"
  rs_finishedAt :: string

record QueuedExtractResult =
  qr_queueMessageId :: string
  qr_message :: ExtractResultMessageV1

record CompleteExtractJob =
  ce_jobId :: string
  ce_status :: job_status
  ce_finishedAt :: string
  ce_error :: "string option"
  ce_resultRef :: "string option"

definition completeExtractJob :: "CompleteExtractJob \<Rightarrow> extract_job list \<Rightarrow> extract_job list" where
  "completeExtractJob result jobs =
     update_job (ce_jobId result)
       (\<lambda>j. j\<lparr> j_status := ce_status result, finishedAt := Some (ce_finishedAt result),
               j_error := ce_error result, resultRef := ce_resultRef result \<rparr>) jobs"

text \<open>JavaScript truthiness of an optional string: present and not empty.\<close>

definition truthy :: "string option \<Rightarrow> bool" where
  "truthy s = (case s of None \<Rightarrow> False | Some v \<Rightarrow> v \<noteq> [])"

definition mapResultMessageToExtractionResult :: "ExtractResultMessageV1 \<Rightarrow> int \<Rightarrow> ExtractionResult" where
  "mapResultMessageToExtractionResult message attempt =
     (if rs_status message = result_failed
      then \<lparr> er_docId = rs_docId message, er_status = ER_extracted_failed, er_pageCount = None,
              er_textLocation = None, er_tablesLocation = None,
              er_error = Some
                (if truthy (rs_errorCode message)
                 then the (rs_errorCode message)
                        @ (if truthy (rs_error message) then '': '' @ the (rs_error message) else [])
                 else (case rs_error message of Some e \<Rightarrow> e | None \<Rightarrow> ''table_extraction_failed'')),
              er_attempt = attempt, er_extractedAt = rs_finishedAt message \<rparr>
      else \<lparr> er_docId = rs_docId message, er_status = ER_extracted_ok, er_pageCount = None,
              er_textLocation = None, er_tablesLocation = rs_tablesLocation message,
              er_error = None, er_attempt = attempt, er_extractedAt = rs_finishedAt message \<rparr>)"

record 'q collect_state =
  cs_docs :: "document list"
  cs_jobs :: "extract_job list"
  cs_queue :: 'q
  cs_processed :: int
  cs_ok :: int
  cs_failed :: int

text \<open>
  One iteration of the loop of \<open>collectExtractResults\<close>.  The queue is the interface
  \<open>AsyncTableQueue\<close>: its state is any type, \<open>consumeResults\<close> and \<open>ackResult\<close> are given.
\<close>

definition collect_step :: "(string \<Rightarrow> 'q \<Rightarrow> 'q) \<Rightarrow> 'q collect_state \<Rightarrow> QueuedExtractResult \<Rightarrow> 'q collect_state" where
  "collect_step ackResult st queued =
     (let message = qr_message queued in
      case getExtractJob (cs_jobs st) (rs_jobId message) of
        None \<Rightarrow> st\<lparr> cs_queue := ackResult (qr_queueMessageId queued) (cs_queue st) \<rparr>
      | Some job \<Rightarrow>
          st\<lparr> cs_docs := markExtractionResult
                            (mapResultMessageToExtractionResult message (j_attempt job)) (cs_docs st),
               cs_jobs := completeExtractJob
                            \<lparr> ce_jobId = rs_jobId message,
                               ce_status = (if rs_status message = result_failed
                                            then job_failed else job_completed),
                               ce_finishedAt = rs_finishedAt message,
                               ce_error = rs_error message,
                               ce_resultRef = rs_tablesLocation message \<rparr> (cs_jobs st),
               cs_queue := ackResult (qr_queueMessageId queued) (cs_queue st),
               cs_processed := cs_processed st + 1,
               cs_ok := (if rs_status message = result_failed then cs_ok st else cs_ok st + 1),
               cs_failed := (if rs_status message = result_failed
                             then cs_failed st + 1 else cs_failed st) \<rparr>)"

definition collectExtractResults ::
  "(int \<Rightarrow> 'q \<Rightarrow> QueuedExtractResult list \<times> 'q) \<Rightarrow> (string \<Rightarrow> 'q \<Rightarrow> 'q) \<Rightarrow> int
   \<Rightarrow> document list \<Rightarrow> extract_job list \<Rightarrow> 'q \<Rightarrow> 'q collect_state" where
  "collectExtractResults consumeResults ackResult limit docs jobs q =
     (let (messages, q') = consumeResults limit q in
      foldl (collect_step ackResult)
        \<lparr> cs_docs = docs, cs_jobs = jobs, cs_queue = q',
           cs_processed = 0, cs_ok = 0, cs_failed = 0 \<rparr> messages)"

text \<open>A consumed message with status no_tables rewritten to status ok.\<close>

definition as_ok :: "QueuedExtractResult \<Rightarrow> QueuedExtractResult" where
  "as_ok queued =
     (if rs_status (qr_message queued) = result_no_tables
      then queued\<lparr> qr_message := (qr_message queued)\<lparr> rs_status := result_ok \<rparr> \<rparr>
      else queued)"

text \<open>The messages that the summary counts as ok and as failed: those with a known job.\<close>

definition counted_ok :: "extract_job list \<Rightarrow> QueuedExtractResult \<Rightarrow> bool" where
  "counted_ok jobs queued =
     (getExtractJob jobs (rs_jobId (qr_message queued)) \<noteq> None
      \<and> rs_status (qr_message queued) \<noteq> result_failed)"

definition counted_failed :: "extract_job list \<Rightarrow> QueuedExtractResult \<Rightarrow> bool" where
  "counted_failed jobs queued =
     (getExtractJob jobs (rs_jobId (qr_message queued)) \<noteq> None
      \<and> rs_status (qr_message queued) = result_failed)"

section \<open>The local queue (localSqliteQueueAdapter.ts, asyncMessages.ts)\<close>

text \<open>A value as \<open>JSON.parse\<close> returns it.\<close>

datatype json =
    JNull
  | JBool bool
  | JNum rat
  | JStr string
  | JArr "json list"
  | JObj "(string \<times> json) list"

















section \<open>The download runner (downloader.ts)\<close>

text \<open>What one call of \<open>downloadAttempt\<close> gives: the object it returns, or the error it throws.\<close>

record AttemptResult =
  ar_statusCode :: int
  ar_resolvedUrl :: "string option"
  ar_contentType :: "string option"
  ar_sha256 :: "string option"
  ar_bytes :: "int option"
  ar_etag :: "string option"
  ar_lastModified :: "string option"

datatype attempt_outcome = Returned AttemptResult | Threw string

text \<open>The effects of the loop that the claims speak of: a download attempt, a backoff sleep.\<close>

datatype event = Attempt int | Sleep rat

definition isRetriableStatus :: "int \<Rightarrow> bool" where
  "isRetriableStatus status = (status = 429 \<or> status \<ge> 500)"

text \<open>\<open>Math.min(1000 * 2 ** (attempt - 1), 10_000)\<close>, in milliseconds.\<close>

definition backoff_ms :: "int \<Rightarrow> rat" where
  "backoff_ms attempt =
     min (if attempt \<ge> 1 then 1000 * 2 ^ nat (attempt - 1) else 1000 / 2 ^ nat (1 - attempt)) 10000"

text \<open>The decimal digits of a number, for the template \<open>HTTP ${statusCode}\<close>.\<close>

fun digits :: "nat \<Rightarrow> string" where
  "digits n = (if n < 10 then [char_of (48 + n)] else digits (n div 10) @ [char_of (48 + n mod 10)])"

definition show_int :: "int \<Rightarrow> string" where
  "show_int i = (if i < 0 then CHR ''-'' # digits (nat (- i)) else digits (nat i))"

text \<open>The result object of a failed download, which the loop builds in several places.\<close>

definition failed_result :: "DownloadWorkItem \<Rightarrow> string option \<Rightarrow> string \<Rightarrow> int \<Rightarrow> string \<Rightarrow> DownloadResult" where
  "failed_result item resolved err attempt now =
     \<lparr> dr_docId = wi_docId item, dr_url = wi_url item, dr_resolvedUrl = resolved,
        dr_status = DR_download_failed, dr_sha256 = None, dr_bytes = None,
        dr_contentType = None, dr_rawLocation = None, dr_etag = None, dr_lastModified = None,
        dr_error = Some err, dr_attempt = attempt, dr_downloadedAt = now \<rparr>"

text \<open>
  The loop \<open>for (; attempt <= config.maxDownloadAttempts; attempt += 1)\<close> of the worker,
  from a given attempt number.  \<open>downloadAttempt n\<close> is the outcome of the call made in
  attempt \<open>n\<close> and \<open>clock n\<close> the time read in it.  The loop gives the result, if it set
  one, and the attempts and sleeps it made, in order.
\<close>

function attempt_loop ::
  "int \<Rightarrow> (int \<Rightarrow> attempt_outcome) \<Rightarrow> (int \<Rightarrow> string) \<Rightarrow> DownloadWorkItem \<Rightarrow> string \<Rightarrow> int
   \<Rightarrow> DownloadResult option \<times> event list" where
  "attempt_loop maxDownloadAttempts downloadAttempt clock item finalPath attempt =
     (if attempt \<le> maxDownloadAttempts then
        (case downloadAttempt attempt of
           Returned attemptResult \<Rightarrow>
             if ar_statusCode attemptResult = 404
             then (Some (failed_result item (ar_resolvedUrl attemptResult) ''HTTP 404'' attempt
                           (clock attempt)),
                   [Attempt attempt])
             else if ar_statusCode attemptResult \<ge> 400
             then (if \<not> isRetriableStatus (ar_statusCode attemptResult)
                      \<or> attempt \<ge> maxDownloadAttempts
                   then (Some (failed_result item (ar_resolvedUrl attemptResult)
                                 (''HTTP '' @ show_int (ar_statusCode attemptResult)) attempt
                                 (clock attempt)),
                         [Attempt attempt])
                   else (let rest = attempt_loop maxDownloadAttempts downloadAttempt clock item
                                      finalPath (attempt + 1)
                         in (fst rest, Attempt attempt # Sleep (backoff_ms attempt) # snd rest)))
             else (Some \<lparr> dr_docId = wi_docId item, dr_url = wi_url item,
                           dr_resolvedUrl = ar_resolvedUrl attemptResult,
                           dr_status = DR_downloaded_ok, dr_sha256 = ar_sha256 attemptResult,
                           dr_bytes = ar_bytes attemptResult,
                           dr_contentType = ar_contentType attemptResult,
                           dr_rawLocation = Some finalPath, dr_etag = ar_etag attemptResult,
                           dr_lastModified = ar_lastModified attemptResult, dr_error = None,
                           dr_attempt = attempt, dr_downloadedAt = clock attempt \<rparr>,
                   [Attempt attempt])
         | Threw message \<Rightarrow>
             if attempt \<ge> maxDownloadAttempts
             then (Some (failed_result item None message attempt (clock attempt)),
                   [Attempt attempt])
             else (let rest = attempt_loop maxDownloadAttempts downloadAttempt clock item
                                finalPath (attempt + 1)
                   in (fst rest, Attempt attempt # Sleep (backoff_ms attempt) # snd rest)))
      else (None, []))"
  by pat_completeness auto
termination
  by (relation "measure (\<lambda>(maxA, d, c, i, p, attempt). nat (maxA + 1 - attempt))") auto

declare attempt_loop.simps [simp del]

text \<open>The worker up to the result it stores: the loop, then the default when no result was set.\<close>

definition download_item ::
  "int \<Rightarrow> (int \<Rightarrow> attempt_outcome) \<Rightarrow> (int \<Rightarrow> string) \<Rightarrow> string \<Rightarrow> DownloadWorkItem \<Rightarrow> string
   \<Rightarrow> DownloadResult \<times> event list" where
  "download_item maxDownloadAttempts downloadAttempt clock now item finalPath =
     (let r = attempt_loop maxDownloadAttempts downloadAttempt clock item finalPath (wi_attempt item)
      in (case fst r of
            Some result \<Rightarrow> (result, snd r)
          | None \<Rightarrow> (failed_result item None ''Unknown download failure'' maxDownloadAttempts now,
                     snd r)))"

text \<open>The attempts after which the loop sleeps and goes on to the next attempt.\<close>

definition retries :: "int \<Rightarrow> (int \<Rightarrow> attempt_outcome) \<Rightarrow> int \<Rightarrow> bool" where
  "retries maxA env a =
     (a < maxA \<and>
      (case env a of
         Returned ar \<Rightarrow> ar_statusCode ar \<noteq> 404 \<and> ar_statusCode ar \<ge> 400
                          \<and> isRetriableStatus (ar_statusCode ar)
       | Threw m \<Rightarrow> True))"

section \<open>One download attempt (downloader.ts)\<close>

text \<open>
  A file on disk: its bytes, marked complete once the stream that wrote it has finished.
  The file system maps a path to the file there, if any.
\<close>

datatype disk_file = Partial "nat list" | Complete "nat list"

type_synonym filesystem = "string \<Rightarrow> disk_file option"

record Response =
  resp_status :: int
  resp_url :: string
  resp_body :: "nat list option"
  resp_contentType :: "string option"
  resp_etag :: "string option"
  resp_lastModified :: "string option"

definition response_ok :: "Response \<Rightarrow> bool" where
  "response_ok response = (200 \<le> resp_status response \<and> resp_status response \<le> 299)"

text \<open>
  What the outside world does in one attempt: \<open>fetchFn\<close> throws or responds; \<open>mkdirSync\<close>,
  \<open>renameSync\<close> and \<open>unlinkSync\<close> succeed or throw; the pipeline into the write stream
  fails before the file is opened, fails after some bytes were written, or completes.
\<close>

datatype fetch_outcome = FetchThrows string | FetchResponds Response

datatype stream_outcome = StreamOpenFails string | StreamFails nat string | StreamDone

datatype io_outcome = IoOk | IoFails string

record attempt_world =
  w_fetch :: fetch_outcome
  w_mkdir :: io_outcome
  w_stream :: stream_outcome
  w_rename :: io_outcome
  w_unlink :: io_outcome

text \<open>
  \<open>if (fs.existsSync(p)) fs.unlinkSync(p)\<close>: the file system without the file, or the
  error of \<open>unlinkSync\<close> when it throws, and then the file is still there.
\<close>

definition unlink_if_exists :: "io_outcome \<Rightarrow> string \<Rightarrow> filesystem \<Rightarrow> string + filesystem" where
  "unlink_if_exists unlink p fs =
     (if fs p \<noteq> None
      then (case unlink of IoOk \<Rightarrow> Inr (fs(p := None)) | IoFails m \<Rightarrow> Inl m)
      else Inr fs)"

text \<open>
  The catch block of \<open>downloadAttempt\<close>: delete the temporary file if it exists, then throw
  the error caught; an error thrown by the deletion takes its place.
\<close>

definition cleanup_and_rethrow ::
  "attempt_world \<Rightarrow> string \<Rightarrow> string \<Rightarrow> filesystem \<Rightarrow> attempt_outcome \<times> filesystem" where
  "cleanup_and_rethrow w tempPath m fs =
     (case unlink_if_exists (w_unlink w) tempPath fs of
        Inl m' \<Rightarrow> (Threw m', fs)
      | Inr fs' \<Rightarrow> (Threw m, fs'))"

text \<open>The object returned for a response that is not streamed.\<close>

definition status_only :: "int \<Rightarrow> string \<Rightarrow> AttemptResult" where
  "status_only code u =
     \<lparr> ar_statusCode = code, ar_resolvedUrl = Some u, ar_contentType = None, ar_sha256 = None,
        ar_bytes = None, ar_etag = None, ar_lastModified = None \<rparr>"

text \<open>
  \<open>downloadAttempt\<close>; \<open>sha256_bytes\<close> stands for the hex digest of the hash fed with the
  chunks of the body.
\<close>

definition downloadAttempt ::
  "(nat list \<Rightarrow> string) \<Rightarrow> attempt_world \<Rightarrow> string \<Rightarrow> filesystem \<Rightarrow> attempt_outcome \<times> filesystem" where
  "downloadAttempt sha256_bytes w outputPath fs =
     (case w_fetch w of
        FetchThrows m \<Rightarrow> (Threw m, fs)
      | FetchResponds response \<Rightarrow>
          if \<not> response_ok response
          then (Returned (status_only (resp_status response) (resp_url response)), fs)
          else (case resp_body response of
                  None \<Rightarrow> (Returned (status_only 500 (resp_url response)), fs)
                | Some body \<Rightarrow>
                    (case w_mkdir w of
                       IoFails m \<Rightarrow> (Threw m, fs)
                     | IoOk \<Rightarrow>
                         (let tempPath = outputPath @ ''.part'' in
                          case w_stream w of
                            StreamOpenFails m \<Rightarrow> cleanup_and_rethrow w tempPath m fs
                          | StreamFails n m \<Rightarrow>
                              cleanup_and_rethrow w tempPath m
                                (fs(tempPath \<mapsto> Partial (take n body)))
                          | StreamDone \<Rightarrow>
                              (let fs1 = fs(tempPath \<mapsto> Complete body) in
                               case w_rename w of
                                 IoFails m \<Rightarrow> cleanup_and_rethrow w tempPath m fs1
                               | IoOk \<Rightarrow>
                                   (Returned
                                      \<lparr> ar_statusCode = resp_status response,
                                         ar_resolvedUrl = Some (resp_url response),
                                         ar_contentType = resp_contentType response,
                                         ar_sha256 = Some (sha256_bytes body),
                                         ar_bytes = Some (int (length body)),
                                         ar_etag = resp_etag response,
                                         ar_lastModified = resp_lastModified response \<rparr>,
                                    fs1(outputPath := fs1 tempPath, tempPath := None)))))))"

text \<open>
  No temporary file beside the target, and nothing half-written at the target; and the
  attempts that get as far as streaming a body.
\<close>

definition no_partial :: "string \<Rightarrow> filesystem \<Rightarrow> bool" where
  "no_partial outputPath fs =
     (fs (outputPath @ ''.part'') = None
      \<and> (case fs outputPath of None \<Rightarrow> True | Some (Complete b) \<Rightarrow> True | Some (Partial b) \<Rightarrow> False))"

definition target_sound :: "string \<Rightarrow> filesystem \<Rightarrow> bool" where
  "target_sound outputPath fs =
     (case fs outputPath of None \<Rightarrow> True | Some (Complete b) \<Rightarrow> True | Some (Partial b) \<Rightarrow> False)"

definition streams :: "attempt_world \<Rightarrow> nat list \<Rightarrow> bool" where
  "streams w body =
     (case w_fetch w of
        FetchThrows m \<Rightarrow> False
      | FetchResponds response \<Rightarrow>
          response_ok response \<and> resp_body response = Some body \<and> w_mkdir w = IoOk)"

section \<open>Sample data\<close>

definition item1 :: DocumentDiscoveredItem where
  "item1 = \<lparr> di_docId = ''d1'', di_url = ''https://x/a.pdf'', di_title = ''A'',
              di_year = None, di_month = None, di_sourcePageUrl = ''https://x'',
              di_discoveredAt = ''2026-02-20T00:00:00.000Z'' \<rparr>"

definition doc1 :: document where
  "doc1 = \<lparr> docId = ''d1'', url = ''https://x/a.pdf'', title = ''A'',
            year = None, month = None, sourcePageUrl = ''https://x'',
            firstSeenAt = ''2026-02-20T00:00:00.000Z'',
            lastSeenAt = ''2026-02-20T00:00:00.000Z'',
            lastStatus = Some discovered,
            sha256 = None, bytes = None, contentType = None, rawLocation = None,
            extractedTextLocation = None, extractedTablesLocation = None,
            error = None, etag = None, lastModified = None, lastCheckedAt = None,
            lastDownloadAt = None, attemptsDownload = 0, attemptsExtract = 0,
            updatedAt = ''2026-02-20T00:00:00.000Z'' \<rparr>"

definition download1 :: DownloadResult where
  "download1 = \<lparr> dr_docId = ''d1'', dr_url = ''https://x/a.pdf'', dr_resolvedUrl = None,
                  dr_status = DR_downloaded_ok, dr_sha256 = Some ''abc'', dr_bytes = Some 1234,
                  dr_contentType = Some ''application/pdf'',
                  dr_rawLocation = Some ''data/raw/d1.pdf'', dr_etag = None,
                  dr_lastModified = None, dr_error = None, dr_attempt = 1,
                  dr_downloadedAt = ''2026-02-20T01:00:00.000Z'' \<rparr>"

definition doc2 :: document where
  "doc2 = doc1\<lparr> docId := ''d2'', url := ''https://x/b.pdf'', title := ''B'',
                 updatedAt := ''2026-02-20T00:00:05.000Z'' \<rparr>"

definition doc3 :: document where
  "doc3 = doc1\<lparr> docId := ''d3'', lastStatus := Some download_failed,
                 error := Some ''http 404 from proxy'', attemptsDownload := 1 \<rparr>"

definition doc_ok :: document where
  "doc_ok = doc1\<lparr> lastStatus := Some downloaded_ok, sha256 := Some ''abc'',
                   rawLocation := Some ''data/raw/d1.pdf'', attemptsDownload := 1,
                   updatedAt := ''2026-02-20T01:00:00.000Z'' \<rparr>"

definition job1 :: extract_job where
  "job1 = \<lparr> jobId = ''job-1'', runId = ''run-1'', j_docId = ''doc-1'',
            rawPdfPath = ''data/raw/doc-1.pdf'', fileSha256 = Some ''abc'', j_attempt = 1,
            submittedAt = ''2026-02-20T00:00:00.000Z'', j_status = job_queued,
            leaseUntil = None, finishedAt = None, j_error = None, resultRef = None \<rparr>"

definition submit_deps :: SubmitExtractJobsDeps where
  "submit_deps = \<lparr> sd_runId = ''run-1'', sd_force = None, sd_limit = 10, sd_maxExtractAttempts = 3 \<rparr>"

definition work1 :: ExtractWorkItem where
  "work1 = \<lparr> ewi_docId = ''d1'', ewi_rawLocation = ''data/raw/d1.pdf'', ewi_attempt = 1 \<rparr>"

definition result1 :: ExtractResultMessageV1 where
  "result1 = \<lparr> rs_version = ''v1'', rs_type = ''tables.extract.result'', rs_jobId = ''job-1'',
                rs_docId = ''d1'', rs_status = result_no_tables, rs_errorCode = None,
                rs_tablesLocation = None, rs_tableCount = Some 0, rs_engine = None,
                rs_error = None, rs_durationMs = None,
                rs_finishedAt = ''2026-02-20T02:00:00.000Z'' \<rparr>"

definition collect0 :: "string list collect_state" where
  "collect0 = \<lparr> cs_docs = [doc_ok], cs_jobs = [job1], cs_queue = [],
                 cs_processed = 0, cs_ok = 0, cs_failed = 0 \<rparr>"

definition batch1 :: "int \<Rightarrow> string list \<Rightarrow> QueuedExtractResult list \<times> string list" where
  "batch1 l x = ([\<lparr> qr_queueMessageId = ''m1'', qr_message = result1 \<rparr>], x)"







definition not_found :: AttemptResult where
  "not_found = \<lparr> ar_statusCode = 404, ar_resolvedUrl = Some ''https://x/a.pdf'',
                  ar_contentType = None, ar_sha256 = None, ar_bytes = None, ar_etag = None,
                  ar_lastModified = None \<rparr>"

definition attempts_example :: "int \<Rightarrow> attempt_outcome" where
  "attempts_example a = (if a = 1 then Threw ''fetch failed'' else Returned not_found)"

definition response_example :: Response where
  "response_example = \<lparr> resp_status = 200, resp_url = ''https://x/a.pdf'',
                         resp_body = Some [37, 80, 68, 70],
                         resp_contentType = Some ''application/pdf'', resp_etag = None,
                         resp_lastModified = None \<rparr>"

definition world_broken :: attempt_world where
  "world_broken = \<lparr> w_fetch = FetchResponds response_example, w_mkdir = IoOk,
                     w_stream = StreamFails 2 ''aborted'', w_rename = IoOk, w_unlink = IoOk \<rparr>"

definition world_fine :: attempt_world where
  "world_fine = \<lparr> w_fetch = FetchResponds response_example, w_mkdir = IoOk,
                   w_stream = StreamDone, w_rename = IoOk, w_unlink = IoOk \<rparr>"

definition world_missing :: attempt_world where
  "world_missing = \<lparr> w_fetch = FetchResponds (response_example\<lparr> resp_status := 404 \<rparr>),
                      w_mkdir = IoOk, w_stream = StreamDone, w_rename = IoOk, w_unlink = IoOk \<rparr>"

definition world_stuck :: attempt_world where
  "world_stuck = \<lparr> w_fetch = FetchResponds response_example, w_mkdir = IoOk,
                    w_stream = StreamFails 2 ''aborted'', w_rename = IoOk,
                    w_unlink = IoFails ''EPERM'' \<rparr>"

section \<open>Lookup through updates\<close>

lemma get_doc_update_doc:
  assumes "\<And>d. docId (f d) = docId d"
  shows "get_doc (update_doc k' f docs) k =
         map_option (\<lambda>d. if docId d = k' then f d else d) (get_doc docs k)"
  using assms by (induction docs) (simp_all add: get_doc_def update_doc_def)

lemma get_doc_append_Some:
  "get_doc docs k = Some d \<Longrightarrow> get_doc (docs @ rows) k = Some d"
  by (induction docs) (auto simp: get_doc_def split: if_splits)

lemma get_doc_None_iff: "get_doc docs k = None \<longleftrightarrow> k \<notin> set (map docId docs)"
  by (auto simp: get_doc_def find_None_iff)

lemma get_doc_Some_docId: "get_doc docs k = Some d \<Longrightarrow> docId d = k"
  by (auto simp: get_doc_def find_Some_iff)

section \<open>Attempt counters\<close>

text \<open>
  C4. For every document of the store and every operation that writes to the documents
  (upsertDiscovered, markDownloadResult, markExtractionResult, markRemoteUnchanged,
  markRemoteChanged, markRawMissing), the document is still there after the operation and
  its attemptsDownload and attemptsExtract are at least what they were.  markDownloadResult
  on the document sets attemptsDownload to the attempt number of the result when that is
  greater than the stored value, and to the stored value plus one otherwise;
  markExtractionResult does the same with attemptsExtract.
\<close>

theorem attempts_monotone:
  assumes "get_doc docs k = Some d"
  shows "\<exists>d'. get_doc (apply_store_op op docs) k = Some d'
           \<and> attemptsDownload d \<le> attemptsDownload d'
           \<and> attemptsExtract d \<le> attemptsExtract d'
           \<and> (\<forall>r. op = MarkDownloadResult r \<and> dr_docId r = k \<longrightarrow>
                  attemptsDownload d' =
                    (if dr_attempt r > attemptsDownload d then dr_attempt r
                     else attemptsDownload d + 1))
           \<and> (\<forall>r. op = MarkExtractionResult r \<and> er_docId r = k \<longrightarrow>
                  attemptsExtract d' =
                    (if er_attempt r > attemptsExtract d then er_attempt r
                     else attemptsExtract d + 1))"
proof (cases op)
  case (UpsertDiscovered now item)
  show ?thesis
  proof (cases "di_docId item \<in> set (map docId docs)")
    case True
    then show ?thesis using assms UpsertDiscovered
      by (simp add: upsertDiscovered_def get_doc_update_doc Let_def)
  next
    case False
    then show ?thesis using assms UpsertDiscovered
      by (simp add: upsertDiscovered_def get_doc_append_Some Let_def)
  qed
next
  case (MarkDownloadResult r)
  then show ?thesis using assms
    by (simp add: markDownloadResult_def get_doc_update_doc get_doc_Some_docId)
next
  case (MarkExtractionResult r)
  then show ?thesis using assms
    by (simp add: markExtractionResult_def get_doc_update_doc get_doc_Some_docId)
next
  case (MarkRemoteUnchanged k t e lm)
  then show ?thesis using assms
    by (simp add: markRemoteUnchanged_def get_doc_update_doc)
next
  case (MarkRemoteChanged k t e lm)
  then show ?thesis using assms
    by (simp add: markRemoteChanged_def get_doc_update_doc)
next
  case (MarkRawMissing k t)
  then show ?thesis using assms
    by (simp add: markRawMissing_def get_doc_update_doc)
qed

theorem attempts_monotone_witness:
  "get_doc [doc1] ''d1'' = Some doc1
   \<and> (\<exists>d'. get_doc (apply_store_op (MarkDownloadResult download1) [doc1]) ''d1'' = Some d'
          \<and> attemptsDownload doc1 \<le> attemptsDownload d'
          \<and> attemptsExtract doc1 \<le> attemptsExtract d'
          \<and> attemptsDownload d' = 1)"
proof -
  have h: "get_doc [doc1] ''d1'' = Some doc1"
    by (simp add: get_doc_def doc1_def)
  have a: "dr_docId download1 = ''d1''" "dr_attempt download1 = 1" "attemptsDownload doc1 = 0"
    by (simp_all add: download1_def doc1_def)
  from attempts_monotone [OF h, of "MarkDownloadResult download1"] a h
  show ?thesis by auto
qed

section \<open>Rediscovery\<close>

text \<open>
  C8 (as amended). When upsertDiscovered is applied to an item whose docId already exists,
  the row keeps its place and changes only in url, title, year, month, sourcePageUrl,
  lastSeenAt and updatedAt; firstSeenAt, the attempt counters, the integrity fields, the
  extraction outputs, the validators, the error and lastStatus are unchanged, and a null
  lastStatus stays null.  When the docId does not exist, one row is appended, with
  lastStatus discovered, both attempt counters zero and no integrity fields.
\<close>

theorem upsertDiscovered_frame:
  "(\<forall>d. get_doc docs (di_docId item) = Some d \<longrightarrow>
      (\<exists>d'. get_doc (upsertDiscovered now item docs) (di_docId item) = Some d'
         \<and> d' = d\<lparr> url := di_url item, title := di_title item, year := di_year item,
                    month := di_month item, sourcePageUrl := di_sourcePageUrl item,
                    lastSeenAt := (if di_discoveredAt item = [] then now else di_discoveredAt item),
                    updatedAt := now \<rparr>
         \<and> docId d' = docId d \<and> firstSeenAt d' = firstSeenAt d \<and> lastStatus d' = lastStatus d
         \<and> attemptsDownload d' = attemptsDownload d \<and> attemptsExtract d' = attemptsExtract d
         \<and> sha256 d' = sha256 d \<and> bytes d' = bytes d \<and> contentType d' = contentType d
         \<and> rawLocation d' = rawLocation d
         \<and> extractedTextLocation d' = extractedTextLocation d
         \<and> extractedTablesLocation d' = extractedTablesLocation d
         \<and> error d' = error d \<and> etag d' = etag d \<and> lastModified d' = lastModified d
         \<and> lastCheckedAt d' = lastCheckedAt d \<and> lastDownloadAt d' = lastDownloadAt d)
      \<and> length (upsertDiscovered now item docs) = length docs)
   \<and> (get_doc docs (di_docId item) = None \<longrightarrow>
        upsertDiscovered now item docs = docs @ [last (upsertDiscovered now item docs)]
        \<and> (\<exists>d'. get_doc (upsertDiscovered now item docs) (di_docId item) = Some d'
              \<and> lastStatus d' = Some discovered
              \<and> url d' = di_url item \<and> title d' = di_title item
              \<and> firstSeenAt d' = di_discoveredAt item
              \<and> attemptsDownload d' = 0 \<and> attemptsExtract d' = 0
              \<and> rawLocation d' = None \<and> sha256 d' = None))"
proof (intro conjI allI impI)
  fix d assume h: "get_doc docs (di_docId item) = Some d"
  then have mem: "di_docId item \<in> set (map docId docs)"
    using get_doc_None_iff [of docs "di_docId item"] by simp
  have "docId d = di_docId item" using h by (rule get_doc_Some_docId)
  then show "\<exists>d'. get_doc (upsertDiscovered now item docs) (di_docId item) = Some d'
         \<and> d' = d\<lparr> url := di_url item, title := di_title item, year := di_year item,
                    month := di_month item, sourcePageUrl := di_sourcePageUrl item,
                    lastSeenAt := (if di_discoveredAt item = [] then now else di_discoveredAt item),
                    updatedAt := now \<rparr>
         \<and> docId d' = docId d \<and> firstSeenAt d' = firstSeenAt d \<and> lastStatus d' = lastStatus d
         \<and> attemptsDownload d' = attemptsDownload d \<and> attemptsExtract d' = attemptsExtract d
         \<and> sha256 d' = sha256 d \<and> bytes d' = bytes d \<and> contentType d' = contentType d
         \<and> rawLocation d' = rawLocation d
         \<and> extractedTextLocation d' = extractedTextLocation d
         \<and> extractedTablesLocation d' = extractedTablesLocation d
         \<and> error d' = error d \<and> etag d' = etag d \<and> lastModified d' = lastModified d
         \<and> lastCheckedAt d' = lastCheckedAt d \<and> lastDownloadAt d' = lastDownloadAt d"
    using h mem by (simp add: upsertDiscovered_def get_doc_update_doc Let_def)
  show "length (upsertDiscovered now item docs) = length docs"
    using mem by (simp add: upsertDiscovered_def update_doc_def Let_def)
next
  assume h: "get_doc docs (di_docId item) = None"
  then have nmem: "di_docId item \<notin> set (map docId docs)"
    by (simp add: get_doc_None_iff)
  show "upsertDiscovered now item docs = docs @ [last (upsertDiscovered now item docs)]"
    using nmem by (simp add: upsertDiscovered_def Let_def)
  have "get_doc (docs @ [r]) (di_docId item) = (if docId r = di_docId item then Some r else None)" for r
    using h by (induction docs) (auto simp: get_doc_def split: if_splits)
  then show "\<exists>d'. get_doc (upsertDiscovered now item docs) (di_docId item) = Some d'
              \<and> lastStatus d' = Some discovered
              \<and> url d' = di_url item \<and> title d' = di_title item
              \<and> firstSeenAt d' = di_discoveredAt item
              \<and> attemptsDownload d' = 0 \<and> attemptsExtract d' = 0
              \<and> rawLocation d' = None \<and> sha256 d' = None"
    using nmem by (simp add: upsertDiscovered_def Let_def)
qed

text \<open>
  The claim as written says that a null lastStatus becomes discovered on conflict.  The
  ON CONFLICT clause does not assign lastStatus: the row below keeps its null.
\<close>

theorem upsertDiscovered_null_status_counterexample:
  "map lastStatus (upsertDiscovered ''2026-03-01T00:00:00.000Z'' item1 [doc1\<lparr>lastStatus := None\<rparr>]) = [None]"
  by (simp add: upsertDiscovered_def update_doc_def doc1_def item1_def)

theorem upsertDiscovered_frame_witness:
  "get_doc [doc1\<lparr>lastStatus := None\<rparr>] (di_docId item1) = Some (doc1\<lparr>lastStatus := None\<rparr>)
   \<and> (\<exists>d'. get_doc (upsertDiscovered ''2026-03-01T00:00:00.000Z'' item1 [doc1\<lparr>lastStatus := None\<rparr>]) (di_docId item1) = Some d'
        \<and> lastStatus d' = None \<and> updatedAt d' = ''2026-03-01T00:00:00.000Z'')
   \<and> get_doc [] (di_docId item1) = None
   \<and> (\<exists>d'. get_doc (upsertDiscovered ''2026-03-01T00:00:00.000Z'' item1 []) (di_docId item1) = Some d'
        \<and> lastStatus d' = Some discovered)"
proof -
  have h: "get_doc [doc1\<lparr>lastStatus := None\<rparr>] (di_docId item1) = Some (doc1\<lparr>lastStatus := None\<rparr>)"
    by (simp add: get_doc_def doc1_def item1_def)
  have n: "get_doc [] (di_docId item1) = None"
    by (simp add: get_doc_def)
  from upsertDiscovered_frame [of "[doc1\<lparr>lastStatus := None\<rparr>]" item1 "''2026-03-01T00:00:00.000Z''"] h
  have 1: "\<exists>d'. get_doc (upsertDiscovered ''2026-03-01T00:00:00.000Z'' item1 [doc1\<lparr>lastStatus := None\<rparr>]) (di_docId item1) = Some d'
        \<and> lastStatus d' = None \<and> updatedAt d' = ''2026-03-01T00:00:00.000Z''"
    by auto
  from upsertDiscovered_frame [of "[]" item1 "''2026-03-01T00:00:00.000Z''"] n
  have 2: "\<exists>d'. get_doc (upsertDiscovered ''2026-03-01T00:00:00.000Z'' item1 []) (di_docId item1) = Some d'
        \<and> lastStatus d' = Some discovered"
    by auto
  from h n 1 2 show ?thesis by blast
qed

section \<open>Pending downloads\<close>

lemma sql_limit_set: "set (sql_limit n xs) \<subseteq> set xs"
  by (auto simp: sql_limit_def dest: in_set_takeD)

lemma sql_limit_length: "0 \<le> n \<Longrightarrow> int (length (sql_limit n xs)) \<le> n"
  by (simp add: sql_limit_def)

lemma sql_limit_all: "n < 0 \<or> int (length xs) \<le> n \<Longrightarrow> sql_limit n xs = xs"
  by (auto simp: sql_limit_def)

lemma sql_limit_sorted: "sorted (map k xs) \<Longrightarrow> sorted (map k (sql_limit n xs))"
  by (simp add: sql_limit_def take_map [symmetric] sorted_wrt_take del: take_map)

lemma sql_limit_rest:
  assumes "sorted (map k xs)" "r \<in> set (sql_limit n xs)" "d \<in> set xs" "d \<notin> set (sql_limit n xs)"
  shows "k r \<le> k d"
proof (cases "n < 0")
  case True
  then show ?thesis using assms by (simp add: sql_limit_def)
next
  case False
  then have r: "r \<in> set (take (nat n) xs)" and nd: "d \<notin> set (take (nat n) xs)"
    using assms by (simp_all add: sql_limit_def)
  have "set xs = set (take (nat n) xs) \<union> set (drop (nat n) xs)"
    by (metis append_take_drop_id set_append)
  then have d: "d \<in> set (drop (nat n) xs)" using assms(3) nd by blast
  have "sorted (map k (take (nat n) xs) @ map k (drop (nat n) xs))"
    using assms(1) by (simp flip: map_append)
  then show ?thesis using r d by (auto simp: sorted_append)
qed

text \<open>
  C2 (as amended). Non-force listPendingDownloads(limit, false, maxAttempts) returns the
  work items of the first rows, limit of them at most when limit is not negative, of the
  eligible documents in ascending updatedAt.  A document is eligible when its lastStatus is
  null or discovered, or download_failed with an error that is null or does not start with
  HTTP 404 compared as LIKE compares (ASCII letters regardless of case), or downloaded_ok
  with rawLocation or sha256 null, and its attemptsDownload is below maxAttempts.  So every
  returned document is eligible, the result is sorted by updatedAt, every eligible document
  is returned when limit is negative or at least the number of eligible documents, and an
  eligible document left out is no older than any returned one.
\<close>

theorem listPendingDownloads_nonforce:
  "listPendingDownloads limit False m docs = map to_work_item (pending_download_rows limit False m docs)
   \<and> (\<forall>d \<in> set (pending_download_rows limit False m docs). d \<in> set docs \<and> pending_download m d)
   \<and> sorted (map updatedAt (pending_download_rows limit False m docs))
   \<and> (0 \<le> limit \<longrightarrow> int (length (listPendingDownloads limit False m docs)) \<le> limit)
   \<and> (limit < 0 \<or> int (length (filter (pending_download m) docs)) \<le> limit \<longrightarrow>
        (\<forall>d \<in> set docs. pending_download m d \<longrightarrow> d \<in> set (pending_download_rows limit False m docs)))
   \<and> (\<forall>d \<in> set docs. \<forall>r \<in> set (pending_download_rows limit False m docs).
         pending_download m d \<and> d \<notin> set (pending_download_rows limit False m docs) \<longrightarrow>
           updatedAt r \<le> updatedAt d)
   \<and> (\<forall>d. pending_download m d \<longleftrightarrow>
         ((lastStatus d = None \<or> lastStatus d = Some discovered
           \<or> (lastStatus d = Some download_failed
                \<and> (error d = None \<or> \<not> sql_like_prefix ''HTTP 404'' (the (error d))))
           \<or> (lastStatus d = Some downloaded_ok \<and> (rawLocation d = None \<or> sha256 d = None)))
          \<and> attemptsDownload d < m))"
proof (intro conjI)
  let ?el = "sort_key updatedAt (filter (pending_download m) docs)"
  have rows: "pending_download_rows limit False m docs = sql_limit limit ?el"
    by (simp add: pending_download_rows_def)
  have srt: "sorted (map updatedAt ?el)" by (rule sorted_sort_key)
  show "listPendingDownloads limit False m docs = map to_work_item (pending_download_rows limit False m docs)"
    by (simp add: listPendingDownloads_def)
  show "\<forall>d \<in> set (pending_download_rows limit False m docs). d \<in> set docs \<and> pending_download m d"
    using sql_limit_set [of limit ?el] by (auto simp: rows)
  show "sorted (map updatedAt (pending_download_rows limit False m docs))"
    unfolding rows using srt by (rule sql_limit_sorted)
  show "0 \<le> limit \<longrightarrow> int (length (listPendingDownloads limit False m docs)) \<le> limit"
    by (simp add: listPendingDownloads_def rows sql_limit_length)
  show "limit < 0 \<or> int (length (filter (pending_download m) docs)) \<le> limit \<longrightarrow>
        (\<forall>d \<in> set docs. pending_download m d \<longrightarrow> d \<in> set (pending_download_rows limit False m docs))"
  proof
    assume "limit < 0 \<or> int (length (filter (pending_download m) docs)) \<le> limit"
    then have "sql_limit limit ?el = ?el" by (intro sql_limit_all) simp
    then show "\<forall>d \<in> set docs. pending_download m d \<longrightarrow> d \<in> set (pending_download_rows limit False m docs)"
      by (simp add: rows)
  qed
  show "\<forall>d \<in> set docs. \<forall>r \<in> set (pending_download_rows limit False m docs).
         pending_download m d \<and> d \<notin> set (pending_download_rows limit False m docs) \<longrightarrow>
           updatedAt r \<le> updatedAt d"
  proof (intro ballI impI)
    fix d r assume d: "d \<in> set docs" and r: "r \<in> set (pending_download_rows limit False m docs)"
      and h: "pending_download m d \<and> d \<notin> set (pending_download_rows limit False m docs)"
    have "d \<in> set ?el" using d h by simp
    then show "updatedAt r \<le> updatedAt d"
      using sql_limit_rest [OF srt, of r limit d] r h by (simp add: rows)
  qed
  show "\<forall>d. pending_download m d \<longleftrightarrow>
         ((lastStatus d = None \<or> lastStatus d = Some discovered
           \<or> (lastStatus d = Some download_failed
                \<and> (error d = None \<or> \<not> sql_like_prefix ''HTTP 404'' (the (error d))))
           \<or> (lastStatus d = Some downloaded_ok \<and> (rawLocation d = None \<or> sha256 d = None)))
          \<and> attemptsDownload d < m)"
    by (auto simp: pending_download_def split: option.splits)
qed

text \<open>
  The claim as written fails in three places: with two eligible documents and limit 1 the
  second is not returned; a download_failed document whose error starts with lower-case
  http 404 does not start with the marker and is still excluded; a negative limit returns
  every eligible document.
\<close>

theorem listPendingDownloads_iff_counterexample:
  "(lastStatus doc2 = Some discovered \<and> attemptsDownload doc2 < 3
      \<and> ''d2'' \<notin> set (map wi_docId (listPendingDownloads 1 False 3 [doc1, doc2])))
   \<and> (lastStatus doc3 = Some download_failed \<and> error doc3 = Some ''http 404 from proxy''
      \<and> take 8 ''http 404 from proxy'' \<noteq> ''HTTP 404'' \<and> attemptsDownload doc3 < 3
      \<and> listPendingDownloads 10 False 3 [doc3] = [])
   \<and> \<not> int (length (listPendingDownloads (- 1) False 3 [doc1, doc2])) \<le> - 1"
proof -
  have like: "sql_like_prefix ''HTTP 404'' ''http 404 from proxy''"
    by code_simp
  show ?thesis
    using like
    by (simp add: listPendingDownloads_def pending_download_rows_def pending_download_def
        sql_limit_def to_work_item_def doc1_def doc2_def doc3_def)
qed

theorem listPendingDownloads_nonforce_witness:
  "doc1 \<in> set [doc1, doc2] \<and> pending_download 3 doc1 \<and> (0::int) \<le> 1
   \<and> doc1 \<in> set (pending_download_rows 1 False 3 [doc1, doc2])
   \<and> doc2 \<in> set [doc1, doc2] \<and> pending_download 3 doc2
   \<and> doc2 \<notin> set (pending_download_rows 1 False 3 [doc1, doc2])
   \<and> updatedAt doc1 \<le> updatedAt doc2
   \<and> int (length (listPendingDownloads 1 False 3 [doc1, doc2])) \<le> 1
   \<and> int (length (filter (pending_download 3) [doc1, doc2])) \<le> 2
   \<and> doc2 \<in> set (pending_download_rows 2 False 3 [doc1, doc2])"
proof -
  have e: "pending_download 3 doc1" "pending_download 3 doc2"
    by (simp_all add: pending_download_def doc1_def doc2_def)
  have r: "pending_download_rows 1 False 3 [doc1, doc2] = [doc1]"
    by (simp add: pending_download_rows_def pending_download_def sql_limit_def doc1_def doc2_def)
  have ne: "doc2 \<noteq> doc1" by (simp add: doc1_def doc2_def)
  from listPendingDownloads_nonforce [of 1 3 "[doc1, doc2]"] e r ne
  have 1: "updatedAt doc1 \<le> updatedAt doc2 \<and> int (length (listPendingDownloads 1 False 3 [doc1, doc2])) \<le> 1"
    by simp
  from listPendingDownloads_nonforce [of 2 3 "[doc1, doc2]"] e
  have 2: "doc2 \<in> set (pending_download_rows 2 False 3 [doc1, doc2])"
    by simp
  from e r ne 1 2 show ?thesis by simp
qed

section \<open>Remote change\<close>

lemma distinct_docId_eq:
  "distinct (map docId docs) \<Longrightarrow> a \<in> set docs \<Longrightarrow> b \<in> set docs \<Longrightarrow> docId a = docId b \<Longrightarrow> a = b"
  by (auto simp: distinct_map dest: inj_onD)

lemma get_doc_distinct:
  "distinct (map docId docs) \<Longrightarrow> d \<in> set docs \<Longrightarrow> get_doc docs (docId d) = Some d"
  by (induction docs) (auto simp: get_doc_def)

lemma update_doc_docIds:
  "(\<And>x. docId (f x) = docId x) \<Longrightarrow> map docId (update_doc k f docs) = map docId docs"
  by (simp add: update_doc_def)

lemma update_doc_mem:
  "d \<in> set docs \<Longrightarrow> docId d = k \<Longrightarrow> f d \<in> set (update_doc k f docs)"
  by (force simp: update_doc_def)

lemma listed_docId_iff:
  "k \<in> set (map wi_docId (listPendingDownloads limit force m docs)) \<longleftrightarrow>
   (\<exists>r \<in> set (pending_download_rows limit force m docs). docId r = k)"
  by (auto simp: listPendingDownloads_def to_work_item_def)

lemma nonforce_row:
  "r \<in> set (pending_download_rows limit False m docs) \<Longrightarrow> r \<in> set docs \<and> pending_download m r"
  using sql_limit_set [of limit "sort_key updatedAt (filter (pending_download m) docs)"]
  by (auto simp: pending_download_rows_def)

lemma nonforce_complete:
  assumes "limit < 0 \<or> int (length (filter (pending_download m) docs)) \<le> limit"
    and "d \<in> set docs" "pending_download m d"
  shows "d \<in> set (pending_download_rows limit False m docs)"
proof -
  have "sql_limit limit (sort_key updatedAt (filter (pending_download m) docs))
        = sort_key updatedAt (filter (pending_download m) docs)"
    using assms(1) by (intro sql_limit_all) simp
  then show ?thesis using assms(2,3) by (simp add: pending_download_rows_def)
qed

text \<open>
  C3 (as amended). In a store whose docIds are distinct, a document with lastStatus
  downloaded_ok and sha256 and rawLocation set is not returned by non-force
  listPendingDownloads.  markRemoteChanged on it sets lastStatus to discovered and error to
  remote_changed (and refreshes validators, lastCheckedAt and updatedAt), leaving
  attemptsDownload as it was.  Afterwards the document is returned when its attemptsDownload
  is below maxAttempts and the limit is negative or at least the number of eligible
  documents; when its attemptsDownload has reached maxAttempts it is not returned.
\<close>

theorem markRemoteChanged_reopens:
  assumes "distinct (map docId docs)" and "d \<in> set docs"
    and "lastStatus d = Some downloaded_ok" and "sha256 d \<noteq> None" and "rawLocation d \<noteq> None"
  shows "docId d \<notin> set (map wi_docId (listPendingDownloads limit False m docs))
     \<and> get_doc (markRemoteChanged (docId d) t e lm docs) (docId d) =
         Some (d\<lparr> etag := coalesce e (etag d), lastModified := coalesce lm (lastModified d),
                  lastCheckedAt := Some t, lastStatus := Some discovered,
                  error := Some ''remote_changed'', updatedAt := t \<rparr>)
     \<and> (attemptsDownload d < m \<longrightarrow>
          (limit' < 0 \<or> int (length (filter (pending_download m)
               (markRemoteChanged (docId d) t e lm docs))) \<le> limit') \<longrightarrow>
          docId d \<in> set (map wi_docId
             (listPendingDownloads limit' False m (markRemoteChanged (docId d) t e lm docs))))
     \<and> (\<not> attemptsDownload d < m \<longrightarrow>
          docId d \<notin> set (map wi_docId
             (listPendingDownloads limit' False m (markRemoteChanged (docId d) t e lm docs))))"
proof (intro conjI impI)
  let ?f = "\<lambda>d. d\<lparr> etag := coalesce e (etag d), lastModified := coalesce lm (lastModified d),
                  lastCheckedAt := Some t, lastStatus := Some discovered,
                  error := Some ''remote_changed'', updatedAt := t \<rparr>"
  let ?docs' = "markRemoteChanged (docId d) t e lm docs"
  have docs': "?docs' = update_doc (docId d) ?f docs"
    by (simp add: markRemoteChanged_def)
  have np: "\<not> pending_download m d"
    using assms(3,4,5) by (simp add: pending_download_def)
  show "docId d \<notin> set (map wi_docId (listPendingDownloads limit False m docs))"
  proof
    assume "docId d \<in> set (map wi_docId (listPendingDownloads limit False m docs))"
    then obtain r where r: "r \<in> set (pending_download_rows limit False m docs)" "docId r = docId d"
      unfolding listed_docId_iff by blast
    then have "r \<in> set docs" "pending_download m r" using nonforce_row by blast+
    then show False using distinct_docId_eq [OF assms(1) _ assms(2) r(2)] np by simp
  qed
  have gd: "get_doc docs (docId d) = Some d"
    using assms(1,2) by (rule get_doc_distinct)
  show "get_doc ?docs' (docId d) = Some (?f d)"
    unfolding docs' using gd by (simp add: get_doc_update_doc)
  have mem': "?f d \<in> set ?docs'"
    unfolding docs' using assms(2) by (intro update_doc_mem) simp_all
  have dist': "distinct (map docId ?docs')"
    unfolding docs' using assms(1) by (simp add: update_doc_docIds)
  have pend': "pending_download m (?f d) \<longleftrightarrow> attemptsDownload d < m"
    by (simp add: pending_download_def)
  {
    assume a: "attemptsDownload d < m"
      and l: "limit' < 0 \<or> int (length (filter (pending_download m) ?docs')) \<le> limit'"
    have "?f d \<in> set (pending_download_rows limit' False m ?docs')"
      using l mem' a pend' by (intro nonforce_complete) simp_all
    then show "docId d \<in> set (map wi_docId (listPendingDownloads limit' False m ?docs'))"
      unfolding listed_docId_iff by (intro bexI [of _ "?f d"]) simp_all
  }
  {
    assume a: "\<not> attemptsDownload d < m"
    show "docId d \<notin> set (map wi_docId (listPendingDownloads limit' False m ?docs'))"
    proof
      assume "docId d \<in> set (map wi_docId (listPendingDownloads limit' False m ?docs'))"
      then obtain r where r: "r \<in> set (pending_download_rows limit' False m ?docs')" "docId r = docId d"
        unfolding listed_docId_iff by blast
      then have rr: "r \<in> set ?docs'" "pending_download m r" using nonforce_row by blast+
      have "docId r = docId (?f d)" using r(2) by simp
      from distinct_docId_eq [OF dist' rr(1) mem' this] have "r = ?f d" .
      then show False using rr(2) pend' a by simp
    qed
  }
qed

text \<open>
  The claim as written says the document reappears.  A document discovered, downloaded on
  attempt 3 and then marked as changed does not reappear with maxAttempts 3.
\<close>

theorem markRemoteChanged_capped_counterexample:
  "listPendingDownloads 10 False 3
     (markRemoteChanged ''d1'' ''2026-02-22T00:00:00.000Z'' (Some ''v2'') None
        (markDownloadResult (download1\<lparr>dr_attempt := 3\<rparr>)
           (upsertDiscovered ''2026-02-20T00:00:00.000Z'' item1 []))) = []"
  by (simp add: listPendingDownloads_def pending_download_rows_def pending_download_def
      sql_limit_def markRemoteChanged_def markDownloadResult_def upsertDiscovered_def
      update_doc_def coalesce_def download_status_column_def download1_def item1_def)

theorem markRemoteChanged_reopens_witness:
  "distinct (map docId [doc_ok]) \<and> doc_ok \<in> set [doc_ok]
   \<and> lastStatus doc_ok = Some downloaded_ok \<and> sha256 doc_ok \<noteq> None \<and> rawLocation doc_ok \<noteq> None
   \<and> attemptsDownload doc_ok < 3
   \<and> int (length (filter (pending_download 3)
         (markRemoteChanged (docId doc_ok) ''2026-02-22T00:00:00.000Z'' (Some ''v2'') None [doc_ok]))) \<le> 10
   \<and> docId doc_ok \<notin> set (map wi_docId (listPendingDownloads 10 False 3 [doc_ok]))
   \<and> docId doc_ok \<in> set (map wi_docId (listPendingDownloads 10 False 3
         (markRemoteChanged (docId doc_ok) ''2026-02-22T00:00:00.000Z'' (Some ''v2'') None [doc_ok])))"
proof -
  have h: "distinct (map docId [doc_ok])" "doc_ok \<in> set [doc_ok]"
    "lastStatus doc_ok = Some downloaded_ok" "sha256 doc_ok \<noteq> None" "rawLocation doc_ok \<noteq> None"
    by (simp_all add: doc_ok_def)
  have a: "attemptsDownload doc_ok < 3" by (simp add: doc_ok_def)
  have l: "int (length (filter (pending_download 3)
         (markRemoteChanged (docId doc_ok) ''2026-02-22T00:00:00.000Z'' (Some ''v2'') None [doc_ok]))) \<le> 10"
    by (simp add: markRemoteChanged_def update_doc_def)
  from markRemoteChanged_reopens [OF h, of 10 3 "''2026-02-22T00:00:00.000Z''" "Some ''v2''" None 10] a l
  show ?thesis using h by blast
qed

section \<open>Leases on extract jobs\<close>

lemma lease_rows_eq:
  "lease_rows lu rows jobs =
   map (\<lambda>j. if jobId j \<in> set (map jobId rows)
             then j\<lparr> j_status := job_leased, leaseUntil := Some lu \<rparr> else j) jobs"
proof (induction rows arbitrary: jobs)
  case Nil
  then show ?case by (simp add: lease_rows_def)
next
  case (Cons r rows)
  have "lease_rows lu (r # rows) jobs =
        lease_rows lu rows (update_job (jobId r) (\<lambda>j. j\<lparr> j_status := job_leased, leaseUntil := Some lu \<rparr>) jobs)"
    by (simp add: lease_rows_def)
  then show ?case by (simp add: Cons.IH update_job_def)
qed

lemma claim_rows_subset:
  "set (sql_limit limit (sort_key submittedAt (filter (claimable now) jobs)))
   \<subseteq> {j \<in> set jobs. claimable now j}"
  using sql_limit_set [of limit "sort_key submittedAt (filter (claimable now) jobs)"] by auto

lemma claimed_ids:
  "map cj_jobId (fst (claimPendingExtractJobs now limit lu jobs)) =
   map jobId (sql_limit limit (sort_key submittedAt (filter (claimable now) jobs)))"
  by (simp add: claimPendingExtractJobs_def Let_def to_claimed_def)

lemma claimed_jobs_after:
  "snd (claimPendingExtractJobs now limit lu jobs) =
   map (\<lambda>j. if jobId j \<in> set (map cj_jobId (fst (claimPendingExtractJobs now limit lu jobs)))
             then j\<lparr> j_status := job_leased, leaseUntil := Some lu \<rparr> else j) jobs"
  unfolding claimed_ids
  by (simp add: claimPendingExtractJobs_def Let_def lease_rows_eq)

lemma claimed_only_claimable:
  assumes "k \<in> set (map cj_jobId (fst (claimPendingExtractJobs now limit lu jobs)))"
  shows "\<exists>j \<in> set jobs. jobId j = k \<and> claimable now j"
  using assms claim_rows_subset [of limit now jobs] unfolding claimed_ids by auto

lemma claim_complete:
  assumes "limit < 0 \<or> int (length (filter (claimable now) jobs)) \<le> limit"
    and "j \<in> set jobs" "claimable now j"
  shows "jobId j \<in> set (map cj_jobId (fst (claimPendingExtractJobs now limit lu jobs)))"
proof -
  have "sql_limit limit (sort_key submittedAt (filter (claimable now) jobs))
        = sort_key submittedAt (filter (claimable now) jobs)"
    using assms(1) by (intro sql_limit_all) simp
  then show ?thesis unfolding claimed_ids using assms(2,3) by simp
qed

text \<open>
  C1. claimPendingExtractJobs(limit, leaseUntil), run at time now on a table with one row
  per jobId, returns only jobs whose status is queued, or leased with a leaseUntil strictly
  before now, gives each returned job the new leaseUntil, and leaves each of them in the
  table with status leased and that leaseUntil; the table keeps one row per jobId.  A later
  claim made at a time at which the lease has not expired (leaseUntil is not before that
  time) returns none of these jobs; a later claim made after the lease has expired finds
  them claimable again and returns them, when its limit does not cut them off.
\<close>

theorem claim_lease_exclusive:
  assumes "distinct (map jobId jobs)"
    and "claimPendingExtractJobs now limit lu jobs = (claimed, jobs')"
  shows "(\<forall>c \<in> set claimed. cj_leaseUntil c = lu
            \<and> (\<exists>j \<in> set jobs. jobId j = cj_jobId c
                  \<and> (j_status j = job_queued
                      \<or> (j_status j = job_leased \<and> (\<exists>l. leaseUntil j = Some l \<and> l < now))))
            \<and> (\<forall>j' \<in> set jobs'. jobId j' = cj_jobId c \<longrightarrow>
                  j_status j' = job_leased \<and> leaseUntil j' = Some lu)
            \<and> (\<exists>j' \<in> set jobs'. jobId j' = cj_jobId c))
     \<and> (0 \<le> limit \<longrightarrow> int (length claimed) \<le> limit)
     \<and> map jobId jobs' = map jobId jobs \<and> distinct (map jobId jobs')
     \<and> (\<forall>now2 limit2 lu2. \<not> lu < now2 \<longrightarrow>
          (\<forall>c \<in> set claimed.
             cj_jobId c \<notin> set (map cj_jobId (fst (claimPendingExtractJobs now2 limit2 lu2 jobs')))))
     \<and> (\<forall>now2 limit2 lu2. lu < now2 \<longrightarrow>
          (limit2 < 0 \<or> int (length (filter (claimable now2) jobs')) \<le> limit2) \<longrightarrow>
          (\<forall>c \<in> set claimed.
             cj_jobId c \<in> set (map cj_jobId (fst (claimPendingExtractJobs now2 limit2 lu2 jobs')))))"
proof -
  let ?L = "\<lambda>j. j\<lparr> j_status := job_leased, leaseUntil := Some lu \<rparr>"
  have c: "claimed = fst (claimPendingExtractJobs now limit lu jobs)"
    and j': "jobs' = snd (claimPendingExtractJobs now limit lu jobs)"
    using assms(2) by simp_all
  have jobs': "jobs' = map (\<lambda>j. if jobId j \<in> set (map cj_jobId claimed) then ?L j else j) jobs"
    unfolding c j' by (rule claimed_jobs_after)
  have ids: "map jobId jobs' = map jobId jobs"
    unfolding jobs' by (simp add: comp_def)
  have dist': "distinct (map jobId jobs')" using assms(1) ids by simp
  have leased: "j_status x = job_leased \<and> leaseUntil x = Some lu"
    if "x \<in> set jobs'" "jobId x \<in> set (map cj_jobId claimed)" for x
    using that unfolding jobs' by auto
  have present: "\<exists>x \<in> set jobs'. jobId x = k" if "k \<in> set (map cj_jobId claimed)" for k
  proof -
    from that obtain j where "j \<in> set jobs" "jobId j = k"
      using claimed_only_claimable [of k now limit lu jobs] unfolding c by blast
    then have "k \<in> set (map jobId jobs)" by force
    then have "k \<in> set (map jobId jobs')" using ids by simp
    then show ?thesis by auto
  qed
  have lu_eq: "cj_leaseUntil x = lu" if "x \<in> set claimed" for x
    using that unfolding c by (auto simp: claimPendingExtractJobs_def Let_def to_claimed_def split: if_splits)
  have p1: "\<forall>c \<in> set claimed. cj_leaseUntil c = lu
            \<and> (\<exists>j \<in> set jobs. jobId j = cj_jobId c
                  \<and> (j_status j = job_queued
                      \<or> (j_status j = job_leased \<and> (\<exists>l. leaseUntil j = Some l \<and> l < now))))
            \<and> (\<forall>j' \<in> set jobs'. jobId j' = cj_jobId c \<longrightarrow>
                  j_status j' = job_leased \<and> leaseUntil j' = Some lu)
            \<and> (\<exists>j' \<in> set jobs'. jobId j' = cj_jobId c)"
  proof
    fix x assume x: "x \<in> set claimed"
    then have k: "cj_jobId x \<in> set (map cj_jobId claimed)" by simp
    have a: "cj_leaseUntil x = lu" using x by (rule lu_eq)
    from k obtain j where "j \<in> set jobs" "jobId j = cj_jobId x" "claimable now j"
      using claimed_only_claimable [of "cj_jobId x" now limit lu jobs] unfolding c by blast
    then have b: "\<exists>j \<in> set jobs. jobId j = cj_jobId x
                  \<and> (j_status j = job_queued
                      \<or> (j_status j = job_leased \<and> (\<exists>l. leaseUntil j = Some l \<and> l < now)))"
      by (auto simp: claimable_def split: option.splits)
    have d: "\<forall>j' \<in> set jobs'. jobId j' = cj_jobId x \<longrightarrow>
                  j_status j' = job_leased \<and> leaseUntil j' = Some lu"
      using leased k by metis
    have e: "\<exists>j' \<in> set jobs'. jobId j' = cj_jobId x" using present k by blast
    from a b d e show "cj_leaseUntil x = lu
            \<and> (\<exists>j \<in> set jobs. jobId j = cj_jobId x
                  \<and> (j_status j = job_queued
                      \<or> (j_status j = job_leased \<and> (\<exists>l. leaseUntil j = Some l \<and> l < now))))
            \<and> (\<forall>j' \<in> set jobs'. jobId j' = cj_jobId x \<longrightarrow>
                  j_status j' = job_leased \<and> leaseUntil j' = Some lu)
            \<and> (\<exists>j' \<in> set jobs'. jobId j' = cj_jobId x)"
      by blast
  qed
  have p2: "0 \<le> limit \<longrightarrow> int (length claimed) \<le> limit"
    unfolding c using sql_limit_length [of limit "sort_key submittedAt (filter (claimable now) jobs)"]
    by (auto simp: claimPendingExtractJobs_def Let_def)
  have p3: "\<forall>now2 limit2 lu2. \<not> lu < now2 \<longrightarrow>
          (\<forall>c \<in> set claimed.
             cj_jobId c \<notin> set (map cj_jobId (fst (claimPendingExtractJobs now2 limit2 lu2 jobs'))))"
  proof (intro allI impI ballI notI)
    fix now2 limit2 lu2 x
    assume ne: "\<not> lu < now2" and x: "x \<in> set claimed"
      and "cj_jobId x \<in> set (map cj_jobId (fst (claimPendingExtractJobs now2 limit2 lu2 jobs')))"
    then obtain y where y: "y \<in> set jobs'" "jobId y = cj_jobId x" "claimable now2 y"
      using claimed_only_claimable by blast
    then have "j_status y = job_leased \<and> leaseUntil y = Some lu"
      using leased [of y] x by simp
    then show False using y(3) ne by (simp add: claimable_def)
  qed
  have p4: "\<forall>now2 limit2 lu2. lu < now2 \<longrightarrow>
          (limit2 < 0 \<or> int (length (filter (claimable now2) jobs')) \<le> limit2) \<longrightarrow>
          (\<forall>c \<in> set claimed.
             cj_jobId c \<in> set (map cj_jobId (fst (claimPendingExtractJobs now2 limit2 lu2 jobs'))))"
  proof (intro allI impI ballI)
    fix now2 limit2 lu2 x
    assume ex: "lu < now2" and l: "limit2 < 0 \<or> int (length (filter (claimable now2) jobs')) \<le> limit2"
      and x: "x \<in> set claimed"
    then obtain y where y: "y \<in> set jobs'" "jobId y = cj_jobId x"
      using present [of "cj_jobId x"] by auto
    then have "j_status y = job_leased \<and> leaseUntil y = Some lu"
      using leased [of y] x by simp
    then have "claimable now2 y" using ex by (simp add: claimable_def)
    from claim_complete [OF l y(1) this, of lu2] y(2)
    show "cj_jobId x \<in> set (map cj_jobId (fst (claimPendingExtractJobs now2 limit2 lu2 jobs')))"
      by simp
  qed
  from p1 p2 ids dist' p3 p4 show ?thesis by blast
qed

theorem claim_lease_exclusive_witness:
  "distinct (map jobId [job1])
   \<and> claimPendingExtractJobs ''2026-02-20T00:30:00.000Z'' 10 ''2026-02-20T01:00:00.000Z'' [job1]
       = ([to_claimed ''2026-02-20T01:00:00.000Z'' job1],
          [job1\<lparr> j_status := job_leased, leaseUntil := Some ''2026-02-20T01:00:00.000Z'' \<rparr>])
   \<and> \<not> ''2026-02-20T01:00:00.000Z'' < ''2026-02-20T00:45:00.000Z''
   \<and> ''job-1'' \<notin> set (map cj_jobId (fst (claimPendingExtractJobs
          ''2026-02-20T00:45:00.000Z'' 10 ''2026-02-20T01:15:00.000Z''
          [job1\<lparr> j_status := job_leased, leaseUntil := Some ''2026-02-20T01:00:00.000Z'' \<rparr>])))
   \<and> ''2026-02-20T01:00:00.000Z'' < ''2026-02-20T02:00:00.000Z''
   \<and> ''job-1'' \<in> set (map cj_jobId (fst (claimPendingExtractJobs
          ''2026-02-20T02:00:00.000Z'' (- 1) ''2026-02-20T03:00:00.000Z''
          [job1\<lparr> j_status := job_leased, leaseUntil := Some ''2026-02-20T01:00:00.000Z'' \<rparr>])))"
proof -
  let ?jobs' = "[job1\<lparr> j_status := job_leased, leaseUntil := Some ''2026-02-20T01:00:00.000Z'' \<rparr>]"
  have d: "distinct (map jobId [job1])" by simp
  have c: "claimPendingExtractJobs ''2026-02-20T00:30:00.000Z'' 10 ''2026-02-20T01:00:00.000Z'' [job1]
       = ([to_claimed ''2026-02-20T01:00:00.000Z'' job1], ?jobs')"
    by (simp add: claimPendingExtractJobs_def claimable_def sql_limit_def lease_rows_def
        update_job_def job1_def)
  have t1: "\<not> ''2026-02-20T01:00:00.000Z'' < ''2026-02-20T00:45:00.000Z''" by simp
  have t2: "''2026-02-20T01:00:00.000Z'' < ''2026-02-20T02:00:00.000Z''" by simp
  have k: "cj_jobId (to_claimed ''2026-02-20T01:00:00.000Z'' job1) = ''job-1''"
    by (simp add: to_claimed_def job1_def)
  note th = claim_lease_exclusive [OF d c]
  from th t1 have n: "''job-1'' \<notin> set (map cj_jobId (fst (claimPendingExtractJobs
          ''2026-02-20T00:45:00.000Z'' 10 ''2026-02-20T01:15:00.000Z'' ?jobs')))"
    using k by (metis list.set_intros(1))
  from th t2 have y: "''job-1'' \<in> set (map cj_jobId (fst (claimPendingExtractJobs
          ''2026-02-20T02:00:00.000Z'' (- 1) ''2026-02-20T03:00:00.000Z'' ?jobs')))"
    using k by (metis list.set_intros(1) neg_less_0_iff_less zero_less_one)
  from d c t1 t2 n y show ?thesis by blast
qed

section \<open>Idempotent submission\<close>

lemma enqueue_keeps:
  "getExtractJob jobs k = Some j \<Longrightarrow> getExtractJob (enqueueExtractJob r jobs) k = Some j"
  by (induction jobs) (auto simp: getExtractJob_def enqueueExtractJob_def split: if_splits)

lemma getExtractJob_None_iff: "getExtractJob jobs k = None \<longleftrightarrow> k \<notin> set (map jobId jobs)"
  by (auto simp: getExtractJob_def find_None_iff)

lemma enqueue_present: "jr_jobId r \<in> set (map jobId (enqueueExtractJob r jobs))"
  by (simp add: enqueueExtractJob_def)

lemma enqueue_distinct:
  "distinct (map jobId jobs) \<Longrightarrow> distinct (map jobId (enqueueExtractJob r jobs))"
  by (simp add: enqueueExtractJob_def)

lemma submit_loop_keeps:
  "getExtractJob jobs k = Some j \<Longrightarrow>
   getExtractJob (fst (submit_loop h pub rid clock i items (jobs, q, n))) k = Some j"
  by (induction items arbitrary: jobs q n i) (simp_all add: Let_def enqueue_keeps)

lemma submit_loop_distinct:
  "distinct (map jobId jobs) \<Longrightarrow>
   distinct (map jobId (fst (submit_loop h pub rid clock i items (jobs, q, n))))"
  by (induction items arbitrary: jobs q n i) (simp_all add: Let_def enqueue_distinct)

lemma submit_loop_present:
  "item \<in> set items \<Longrightarrow>
   getExtractJob (fst (submit_loop h pub rid clock i items (jobs, q, n)))
     (createExtractJobId h (ewi_docId item) (ewi_rawLocation item)) \<noteq> None"
proof (induction items arbitrary: jobs q n i)
  case Nil
  then show ?case by simp
next
  case (Cons a items)
  show ?case
  proof (cases "item = a")
    case True
    let ?r = "\<lparr> jr_jobId = createExtractJobId h (ewi_docId a) (ewi_rawLocation a), jr_runId = rid,
                 jr_docId = ewi_docId a, jr_rawPdfPath = ewi_rawLocation a, jr_fileSha256 = None,
                 jr_attempt = ewi_attempt a, jr_submittedAt = clock i \<rparr>"
    have "getExtractJob (enqueueExtractJob ?r jobs) (jr_jobId ?r) \<noteq> None"
      using enqueue_present [of ?r jobs] by (simp only: getExtractJob_None_iff not_not)
    then obtain j where "getExtractJob (enqueueExtractJob ?r jobs) (jr_jobId ?r) = Some j" by blast
    then show ?thesis using True by (simp add: Let_def submit_loop_keeps)
  next
    case False
    then have "item \<in> set items" using Cons.prems by simp
    from Cons.IH [OF this] show ?thesis by (simp add: Let_def)
  qed
qed

lemma distinct_count_one:
  "distinct (map jobId jobs) \<Longrightarrow> getExtractJob jobs k = Some j \<Longrightarrow>
   length (filter (\<lambda>x. jobId x = k) jobs) = 1"
proof (induction jobs)
  case Nil
  then show ?case by (simp add: getExtractJob_def)
next
  case (Cons a jobs)
  show ?case
  proof (cases "jobId a = k")
    case True
    then have "k \<notin> jobId ` set jobs" using Cons.prems(1) by auto
    then have "filter (\<lambda>x. jobId x = k) jobs = []" by (auto simp: filter_empty_conv)
    then show ?thesis using True by simp
  next
    case False
    then have "getExtractJob jobs k = Some j" using Cons.prems(2) by (simp add: getExtractJob_def)
    then show ?thesis using Cons.IH Cons.prems(1) False by simp
  qed
qed

text \<open>
  C7. createExtractJobId is the first 24 characters of the sha256 hex digest of docId, a
  bar and rawPdfPath, so it depends on the pair alone, and enqueueExtractJob does nothing
  when the jobId is already there.  Hence, for a table with one row per jobId and an item
  covered by a first submitExtractJobs call: after that call and after any second
  submitExtractJobs call (whatever its run, clock and candidates, so also one covering the
  same pair) there is exactly one row with the item's jobId, and the second call leaves
  that row as the first call left it.
\<close>

theorem submit_twice_one_row:
  assumes "distinct (map jobId jobsI)"
    and "item \<in> set (listPendingExtracts (sd_limit depsA)
                        (case sd_force depsA of Some b \<Rightarrow> b | None \<Rightarrow> False)
                        (sd_maxExtractAttempts depsA) docsA)"
    and "jobsA = fst (submitExtractJobs h pub clockA depsA docsA jobsI qI)"
    and "qA = fst (snd (submitExtractJobs h pub clockA depsA docsA jobsI qI))"
    and "jobsB = fst (submitExtractJobs h pub clockB depsB docsB jobsA qA)"
    and "k = createExtractJobId h (ewi_docId item) (ewi_rawLocation item)"
  shows "k = take 24 (h (ewi_docId item @ ''|'' @ ewi_rawLocation item))
     \<and> (\<exists>row. getExtractJob jobsA k = Some row \<and> getExtractJob jobsB k = Some row)
     \<and> length (filter (\<lambda>j. jobId j = k) jobsA) = 1
     \<and> length (filter (\<lambda>j. jobId j = k) jobsB) = 1"
proof -
  have d1: "distinct (map jobId jobsA)"
    unfolding assms(3) submitExtractJobs_def Let_def using assms(1) by (rule submit_loop_distinct)
  have d2: "distinct (map jobId jobsB)"
    unfolding assms(5) submitExtractJobs_def Let_def using d1 by (rule submit_loop_distinct)
  have "getExtractJob jobsA k \<noteq> None"
    unfolding assms(3,6) submitExtractJobs_def Let_def using assms(2) by (rule submit_loop_present)
  then obtain row where r1: "getExtractJob jobsA k = Some row" by blast
  have r2: "getExtractJob jobsB k = Some row"
    unfolding assms(5) submitExtractJobs_def Let_def using r1 by (rule submit_loop_keeps)
  show ?thesis
    using r1 r2 distinct_count_one [OF d1 r1] distinct_count_one [OF d2 r2]
    by (simp add: assms(6) createExtractJobId_def)
qed

theorem submit_twice_one_row_witness:
  "distinct (map jobId [])
   \<and> work1 \<in> set (listPendingExtracts 10 False 3 [doc_ok])
   \<and> length (filter (\<lambda>j. jobId j = ''d1|data/raw/d1.pdf'')
        (fst (submitExtractJobs (\<lambda>s. s) (\<lambda>m q. q @ [m]) (\<lambda>i. ''2026-02-21T00:00:00.000Z'')
                (submit_deps\<lparr>sd_runId := ''run-2''\<rparr>) [doc_ok]
                (fst (submitExtractJobs (\<lambda>s. s) (\<lambda>m q. q @ [m]) (\<lambda>i. ''2026-02-20T02:00:00.000Z'')
                        submit_deps [doc_ok] [] []))
                (fst (snd (submitExtractJobs (\<lambda>s. s) (\<lambda>m q. q @ [m]) (\<lambda>i. ''2026-02-20T02:00:00.000Z'')
                        submit_deps [doc_ok] [] [])))))) = 1"
proof -
  have d: "distinct (map jobId [])" by simp
  have p: "listPendingExtracts 10 False 3 [doc_ok] = [work1]"
    by (simp add: listPendingExtracts_def pending_extract_def sql_limit_def List.map_filter_simps
        to_extract_item_def doc_ok_def doc1_def work1_def)
  have m: "work1 \<in> set (listPendingExtracts (sd_limit submit_deps)
                        (case sd_force submit_deps of Some b \<Rightarrow> b | None \<Rightarrow> False)
                        (sd_maxExtractAttempts submit_deps) [doc_ok])"
    by (simp add: p submit_deps_def)
  have k: "createExtractJobId (\<lambda>s. s) (ewi_docId work1) (ewi_rawLocation work1) = ''d1|data/raw/d1.pdf''"
    by (simp add: createExtractJobId_def work1_def)
  note th = submit_twice_one_row [where h = "\<lambda>s. s" and pub = "\<lambda>m q. q @ [m]"
      and clockA = "\<lambda>i. ''2026-02-20T02:00:00.000Z''" and clockB = "\<lambda>i. ''2026-02-21T00:00:00.000Z''"
      and depsB = "submit_deps\<lparr>sd_runId := ''run-2''\<rparr>" and docsB = "[doc_ok]" and qI = "[]",
      OF d m refl refl refl refl]
  from th [unfolded k] have "length (filter (\<lambda>j. jobId j = ''d1|data/raw/d1.pdf'')
        (fst (submitExtractJobs (\<lambda>s. s) (\<lambda>m q. q @ [m]) (\<lambda>i. ''2026-02-21T00:00:00.000Z'')
                (submit_deps\<lparr>sd_runId := ''run-2''\<rparr>) [doc_ok]
                (fst (submitExtractJobs (\<lambda>s. s) (\<lambda>m q. q @ [m]) (\<lambda>i. ''2026-02-20T02:00:00.000Z'')
                        submit_deps [doc_ok] [] []))
                (fst (snd (submitExtractJobs (\<lambda>s. s) (\<lambda>m q. q @ [m]) (\<lambda>i. ''2026-02-20T02:00:00.000Z'')
                        submit_deps [doc_ok] [] [])))))) = 1"
    by blast
  with d p show ?thesis by simp
qed

section \<open>Result messages\<close>

lemma getExtractJob_update_job:
  assumes "\<And>j. jobId (f j) = jobId j"
  shows "getExtractJob (update_job k' f jobs) k =
         map_option (\<lambda>j. if jobId j = k' then f j else j) (getExtractJob jobs k)"
  using assms by (induction jobs) (simp_all add: getExtractJob_def update_job_def)

lemma getExtractJob_Some_jobId: "getExtractJob jobs k = Some j \<Longrightarrow> jobId j = k"
  by (auto simp: getExtractJob_def find_Some_iff)

lemma collect_step_known:
  "getExtractJob (cs_jobs (collect_step ack st queued)) k = None \<longleftrightarrow> getExtractJob (cs_jobs st) k = None"
  by (simp add: collect_step_def Let_def completeExtractJob_def getExtractJob_update_job
      split: option.splits)

lemma collect_fold_counts:
  "cs_ok (foldl (collect_step ack) st messages)
     = cs_ok st + int (length (filter (counted_ok (cs_jobs st)) messages))
   \<and> cs_failed (foldl (collect_step ack) st messages)
     = cs_failed st + int (length (filter (counted_failed (cs_jobs st)) messages))"
proof (induction messages arbitrary: st)
  case Nil
  then show ?case by simp
next
  case (Cons a messages)
  have same: "counted_ok (cs_jobs (collect_step ack st a)) = counted_ok (cs_jobs st)"
    "counted_failed (cs_jobs (collect_step ack st a)) = counted_failed (cs_jobs st)"
    by (auto simp: counted_ok_def counted_failed_def collect_step_known fun_eq_iff)
  have step: "cs_ok (collect_step ack st a) = cs_ok st + (if counted_ok (cs_jobs st) a then 1 else 0)"
    "cs_failed (collect_step ack st a) = cs_failed st + (if counted_failed (cs_jobs st) a then 1 else 0)"
    by (auto simp: collect_step_def Let_def counted_ok_def counted_failed_def split: option.splits)
  show ?case using Cons.IH [of "collect_step ack st a"] by (simp add: same step)
qed

lemma collect_step_as_ok: "collect_step ack st (as_ok x) = collect_step ack st x"
  by (simp add: as_ok_def collect_step_def Let_def mapResultMessageToExtractionResult_def
      split: option.splits)

lemma collect_fold_as_ok:
  "foldl (collect_step ack) st (map as_ok xs) = foldl (collect_step ack) st xs"
  by (induction xs arbitrary: st) (simp_all add: collect_step_as_ok)

lemma collect_fold_known:
  "getExtractJob (cs_jobs (foldl (collect_step ack) st xs)) k = None
   \<longleftrightarrow> getExtractJob (cs_jobs st) k = None"
  by (induction xs arbitrary: st) (simp_all add: collect_step_known)

lemma collect_step_doc_exists:
  "get_doc (cs_docs (collect_step ack st x)) k = None \<longleftrightarrow> get_doc (cs_docs st) k = None"
  by (simp add: collect_step_def Let_def markExtractionResult_def get_doc_update_doc
      split: option.splits)

lemma collect_fold_doc_exists:
  "get_doc (cs_docs (foldl (collect_step ack) st xs)) k = None
   \<longleftrightarrow> get_doc (cs_docs st) k = None"
  by (induction xs arbitrary: st) (simp_all add: collect_step_doc_exists)

lemma collect_step_other_doc:
  assumes "rs_docId (qr_message x) \<noteq> k"
  shows "get_doc (cs_docs (collect_step ack st x)) k = get_doc (cs_docs st) k"
proof (cases "get_doc (cs_docs st) k")
  case None
  then show ?thesis using collect_step_doc_exists [of ack st x k] by simp
next
  case (Some d)
  then have "docId d = k" by (rule get_doc_Some_docId)
  then show ?thesis using assms Some
    by (simp add: collect_step_def Let_def markExtractionResult_def get_doc_update_doc
        mapResultMessageToExtractionResult_def split: option.splits)
qed

lemma collect_step_other_job:
  assumes "rs_jobId (qr_message x) \<noteq> k"
  shows "getExtractJob (cs_jobs (collect_step ack st x)) k = getExtractJob (cs_jobs st) k"
proof (cases "getExtractJob (cs_jobs st) k")
  case None
  then show ?thesis using collect_step_known [of ack st x k] by simp
next
  case (Some j)
  then have "jobId j = k" by (rule getExtractJob_Some_jobId)
  then show ?thesis using assms Some
    by (simp add: collect_step_def Let_def completeExtractJob_def getExtractJob_update_job
        split: option.splits)
qed

lemma collect_fold_others:
  assumes "\<forall>x \<in> set xs. rs_docId (qr_message x) \<noteq> kd \<and> rs_jobId (qr_message x) \<noteq> kj"
  shows "get_doc (cs_docs (foldl (collect_step ack) st xs)) kd = get_doc (cs_docs st) kd
     \<and> getExtractJob (cs_jobs (foldl (collect_step ack) st xs)) kj = getExtractJob (cs_jobs st) kj"
  using assms
  by (induction xs arbitrary: st) (simp_all add: collect_step_other_doc collect_step_other_job)

lemma collect_fold_queue:
  "cs_queue (foldl (collect_step ack) st xs)
     = foldl (\<lambda>q' x. ack (qr_queueMessageId x) q') (cs_queue st) xs"
  by (induction xs arbitrary: st) (simp_all add: collect_step_def Let_def split: option.splits)

lemma collect_step_marks:
  assumes "getExtractJob (cs_jobs st) (rs_jobId m) = Some job"
    and "get_doc (cs_docs st) (rs_docId m) = Some d"
  shows "\<exists>d' j'. get_doc (cs_docs (collect_step ack st \<lparr> qr_queueMessageId = i, qr_message = m \<rparr>))
                       (rs_docId m) = Some d'
             \<and> lastStatus d' = Some (if rs_status m = result_failed
                                      then extracted_failed else extracted_ok)
             \<and> extractedTablesLocation d' =
                 (if rs_status m = result_failed then extractedTablesLocation d
                  else coalesce (rs_tablesLocation m) (extractedTablesLocation d))
             \<and> getExtractJob (cs_jobs (collect_step ack st \<lparr> qr_queueMessageId = i, qr_message = m \<rparr>))
                  (rs_jobId m) = Some j'
             \<and> j_status j' = (if rs_status m = result_failed then job_failed else job_completed)"
proof -
  have jk: "jobId job = rs_jobId m" using assms(1) by (rule getExtractJob_Some_jobId)
  have dk: "docId d = rs_docId m" using assms(2) by (rule get_doc_Some_docId)
  show ?thesis
    using assms jk dk
    by (simp add: collect_step_def Let_def mapResultMessageToExtractionResult_def
        markExtractionResult_def completeExtractJob_def get_doc_update_doc
        getExtractJob_update_job extraction_status_column_def coalesce_def)
qed

lemma collect_batch_marks:
  assumes "fst (consume limit q) = pre @ \<lparr> qr_queueMessageId = i, qr_message = m \<rparr> # post"
    and "getExtractJob jobs (rs_jobId m) \<noteq> None"
    and "get_doc docs (rs_docId m) \<noteq> None"
    and "\<forall>x \<in> set post. rs_docId (qr_message x) \<noteq> rs_docId m \<and> rs_jobId (qr_message x) \<noteq> rs_jobId m"
  shows "\<exists>d' j'. get_doc (cs_docs (collectExtractResults consume ack limit docs jobs q))
                       (rs_docId m) = Some d'
             \<and> lastStatus d' = Some (if rs_status m = result_failed
                                      then extracted_failed else extracted_ok)
             \<and> (\<forall>l. rs_status m \<noteq> result_failed \<and> rs_tablesLocation m = Some l \<longrightarrow>
                    extractedTablesLocation d' = Some l)
             \<and> getExtractJob (cs_jobs (collectExtractResults consume ack limit docs jobs q))
                  (rs_jobId m) = Some j'
             \<and> j_status j' = (if rs_status m = result_failed then job_failed else job_completed)"
proof -
  let ?st0 = "\<lparr> cs_docs = docs, cs_jobs = jobs, cs_queue = snd (consume limit q),
                 cs_processed = 0, cs_ok = 0, cs_failed = 0 \<rparr>"
  let ?st1 = "foldl (collect_step ack) ?st0 pre"
  let ?x = "\<lparr> qr_queueMessageId = i, qr_message = m \<rparr>"
  let ?st2 = "collect_step ack ?st1 ?x"
  have final: "collectExtractResults consume ack limit docs jobs q = foldl (collect_step ack) ?st2 post"
    by (simp add: collectExtractResults_def split_beta assms(1))
  have "getExtractJob (cs_jobs ?st1) (rs_jobId m) \<noteq> None"
    using assms(2) by (simp add: collect_fold_known)
  then obtain job where job: "getExtractJob (cs_jobs ?st1) (rs_jobId m) = Some job" by blast
  have "get_doc (cs_docs ?st1) (rs_docId m) \<noteq> None"
    using assms(3) by (simp add: collect_fold_doc_exists)
  then obtain d where d: "get_doc (cs_docs ?st1) (rs_docId m) = Some d" by blast
  from collect_step_marks [OF job d, of ack i]
  obtain d' j' where m2: "get_doc (cs_docs ?st2) (rs_docId m) = Some d'"
    "lastStatus d' = Some (if rs_status m = result_failed then extracted_failed else extracted_ok)"
    "extractedTablesLocation d' =
       (if rs_status m = result_failed then extractedTablesLocation d
        else coalesce (rs_tablesLocation m) (extractedTablesLocation d))"
    "getExtractJob (cs_jobs ?st2) (rs_jobId m) = Some j'"
    "j_status j' = (if rs_status m = result_failed then job_failed else job_completed)"
    by blast
  have tl: "\<forall>l. rs_status m \<noteq> result_failed \<and> rs_tablesLocation m = Some l \<longrightarrow>
                    extractedTablesLocation d' = Some l"
    using m2(3) by (simp add: coalesce_def)
  note keep = collect_fold_others [OF assms(4), of ack ?st2]
  show ?thesis
    unfolding final using keep m2(1,2,4,5) tl by simp
qed

text \<open>
  C10. For a result message whose jobId is that of a known ExtractJob (and whose docId is
  that of a document of the store), collectExtractResults treats status no_tables exactly
  as status ok: the extraction result mapped from the message and the step of the loop are
  the same, and the whole call gives the same store, queue and summary when the batch has
  its no_tables messages rewritten to ok.  With either status the step gives the document
  lastStatus extracted_ok, with extractedTablesLocation taken from the message when it
  carries a tablesLocation and kept otherwise, gives the job status completed, and adds
  one to the ok count.  With status failed the document gets extracted_failed, the job
  failed, and the failed count goes up by one.  After the whole call the document and the
  job of such a message are in that state, when no later message of the batch is for the
  same document or job.  The summary's ok is the number of consumed messages with a known
  job and a status other than failed, its failed the number of those with status failed,
  and every consumed message is acknowledged, in the order of the batch.
\<close>

theorem no_tables_like_ok:
  assumes "getExtractJob (cs_jobs st) (rs_jobId m) = Some job"
    and "get_doc (cs_docs st) (rs_docId m) = Some d"
  shows "collect_step ack st \<lparr> qr_queueMessageId = i, qr_message = m\<lparr>rs_status := result_no_tables\<rparr> \<rparr>
           = collect_step ack st \<lparr> qr_queueMessageId = i, qr_message = m\<lparr>rs_status := result_ok\<rparr> \<rparr>
     \<and> mapResultMessageToExtractionResult (m\<lparr>rs_status := result_no_tables\<rparr>) a
           = mapResultMessageToExtractionResult (m\<lparr>rs_status := result_ok\<rparr>) a
     \<and> (rs_status m \<noteq> result_failed \<longrightarrow>
          (\<exists>d' j'. get_doc (cs_docs (collect_step ack st \<lparr> qr_queueMessageId = i, qr_message = m \<rparr>))
                       (rs_docId m) = Some d'
             \<and> lastStatus d' = Some extracted_ok
             \<and> extractedTablesLocation d' = coalesce (rs_tablesLocation m) (extractedTablesLocation d)
             \<and> getExtractJob (cs_jobs (collect_step ack st \<lparr> qr_queueMessageId = i, qr_message = m \<rparr>))
                  (rs_jobId m) = Some j'
             \<and> j_status j' = job_completed)
          \<and> cs_ok (collect_step ack st \<lparr> qr_queueMessageId = i, qr_message = m \<rparr>) = cs_ok st + 1
          \<and> cs_failed (collect_step ack st \<lparr> qr_queueMessageId = i, qr_message = m \<rparr>) = cs_failed st)
     \<and> (rs_status m = result_failed \<longrightarrow>
          (\<exists>d' j'. get_doc (cs_docs (collect_step ack st \<lparr> qr_queueMessageId = i, qr_message = m \<rparr>))
                       (rs_docId m) = Some d'
             \<and> lastStatus d' = Some extracted_failed
             \<and> getExtractJob (cs_jobs (collect_step ack st \<lparr> qr_queueMessageId = i, qr_message = m \<rparr>))
                  (rs_jobId m) = Some j'
             \<and> j_status j' = job_failed)
          \<and> cs_ok (collect_step ack st \<lparr> qr_queueMessageId = i, qr_message = m \<rparr>) = cs_ok st
          \<and> cs_failed (collect_step ack st \<lparr> qr_queueMessageId = i, qr_message = m \<rparr>) = cs_failed st + 1)
     \<and> cs_ok (collectExtractResults consume ack limit docs jobs q)
          = int (length (filter (counted_ok jobs) (fst (consume limit q))))
     \<and> cs_failed (collectExtractResults consume ack limit docs jobs q)
          = int (length (filter (counted_failed jobs) (fst (consume limit q))))
     \<and> collectExtractResults (\<lambda>l x. (map as_ok (fst (consume l x)), snd (consume l x)))
            ack limit docs jobs q
          = collectExtractResults consume ack limit docs jobs q
     \<and> (\<forall>pre post.
           fst (consume limit q) = pre @ \<lparr> qr_queueMessageId = i, qr_message = m \<rparr> # post
           \<and> getExtractJob jobs (rs_jobId m) \<noteq> None \<and> get_doc docs (rs_docId m) \<noteq> None
           \<and> (\<forall>x \<in> set post. rs_docId (qr_message x) \<noteq> rs_docId m
                                 \<and> rs_jobId (qr_message x) \<noteq> rs_jobId m) \<longrightarrow>
           (\<exists>d' j'. get_doc (cs_docs (collectExtractResults consume ack limit docs jobs q))
                        (rs_docId m) = Some d'
              \<and> lastStatus d' = Some (if rs_status m = result_failed
                                       then extracted_failed else extracted_ok)
              \<and> (\<forall>l. rs_status m \<noteq> result_failed \<and> rs_tablesLocation m = Some l \<longrightarrow>
                     extractedTablesLocation d' = Some l)
              \<and> getExtractJob (cs_jobs (collectExtractResults consume ack limit docs jobs q))
                   (rs_jobId m) = Some j'
              \<and> j_status j' = (if rs_status m = result_failed
                                then job_failed else job_completed)))
     \<and> cs_queue (collectExtractResults consume ack limit docs jobs q)
          = foldl (\<lambda>q' x. ack (qr_queueMessageId x) q') (snd (consume limit q))
              (fst (consume limit q))"
proof -
  have jk: "jobId job = rs_jobId m" using assms(1) by (rule getExtractJob_Some_jobId)
  have dk: "docId d = rs_docId m" using assms(2) by (rule get_doc_Some_docId)
  have 1: "collect_step ack st \<lparr> qr_queueMessageId = i, qr_message = m\<lparr>rs_status := result_no_tables\<rparr> \<rparr>
           = collect_step ack st \<lparr> qr_queueMessageId = i, qr_message = m\<lparr>rs_status := result_ok\<rparr> \<rparr>"
    using assms(1) by (simp add: collect_step_def Let_def mapResultMessageToExtractionResult_def)
  have 2: "mapResultMessageToExtractionResult (m\<lparr>rs_status := result_no_tables\<rparr>) a
           = mapResultMessageToExtractionResult (m\<lparr>rs_status := result_ok\<rparr>) a"
    by (simp add: mapResultMessageToExtractionResult_def)
  have 3: "rs_status m \<noteq> result_failed \<longrightarrow>
          (\<exists>d' j'. get_doc (cs_docs (collect_step ack st \<lparr> qr_queueMessageId = i, qr_message = m \<rparr>))
                       (rs_docId m) = Some d'
             \<and> lastStatus d' = Some extracted_ok
             \<and> extractedTablesLocation d' = coalesce (rs_tablesLocation m) (extractedTablesLocation d)
             \<and> getExtractJob (cs_jobs (collect_step ack st \<lparr> qr_queueMessageId = i, qr_message = m \<rparr>))
                  (rs_jobId m) = Some j'
             \<and> j_status j' = job_completed)
          \<and> cs_ok (collect_step ack st \<lparr> qr_queueMessageId = i, qr_message = m \<rparr>) = cs_ok st + 1
          \<and> cs_failed (collect_step ack st \<lparr> qr_queueMessageId = i, qr_message = m \<rparr>) = cs_failed st"
    using assms jk dk
    by (simp add: collect_step_def Let_def mapResultMessageToExtractionResult_def
        markExtractionResult_def completeExtractJob_def get_doc_update_doc
        getExtractJob_update_job extraction_status_column_def)
  have 4: "rs_status m = result_failed \<longrightarrow>
          (\<exists>d' j'. get_doc (cs_docs (collect_step ack st \<lparr> qr_queueMessageId = i, qr_message = m \<rparr>))
                       (rs_docId m) = Some d'
             \<and> lastStatus d' = Some extracted_failed
             \<and> getExtractJob (cs_jobs (collect_step ack st \<lparr> qr_queueMessageId = i, qr_message = m \<rparr>))
                  (rs_jobId m) = Some j'
             \<and> j_status j' = job_failed)
          \<and> cs_ok (collect_step ack st \<lparr> qr_queueMessageId = i, qr_message = m \<rparr>) = cs_ok st
          \<and> cs_failed (collect_step ack st \<lparr> qr_queueMessageId = i, qr_message = m \<rparr>) = cs_failed st + 1"
    using assms jk dk
    by (simp add: collect_step_def Let_def mapResultMessageToExtractionResult_def
        markExtractionResult_def completeExtractJob_def get_doc_update_doc
        getExtractJob_update_job extraction_status_column_def)
  have 5: "cs_ok (collectExtractResults consume ack limit docs jobs q)
          = int (length (filter (counted_ok jobs) (fst (consume limit q))))
     \<and> cs_failed (collectExtractResults consume ack limit docs jobs q)
          = int (length (filter (counted_failed jobs) (fst (consume limit q))))"
    using collect_fold_counts [of ack "\<lparr> cs_docs = docs, cs_jobs = jobs, cs_queue = snd (consume limit q),
           cs_processed = 0, cs_ok = 0, cs_failed = 0 \<rparr>" "fst (consume limit q)"]
    by (simp add: collectExtractResults_def split_beta)
  have 6: "collectExtractResults (\<lambda>l x. (map as_ok (fst (consume l x)), snd (consume l x)))
            ack limit docs jobs q
          = collectExtractResults consume ack limit docs jobs q"
    by (simp add: collectExtractResults_def split_beta collect_fold_as_ok)
  have 7: "\<forall>pre post.
           fst (consume limit q) = pre @ \<lparr> qr_queueMessageId = i, qr_message = m \<rparr> # post
           \<and> getExtractJob jobs (rs_jobId m) \<noteq> None \<and> get_doc docs (rs_docId m) \<noteq> None
           \<and> (\<forall>x \<in> set post. rs_docId (qr_message x) \<noteq> rs_docId m
                                 \<and> rs_jobId (qr_message x) \<noteq> rs_jobId m) \<longrightarrow>
           (\<exists>d' j'. get_doc (cs_docs (collectExtractResults consume ack limit docs jobs q))
                        (rs_docId m) = Some d'
              \<and> lastStatus d' = Some (if rs_status m = result_failed
                                       then extracted_failed else extracted_ok)
              \<and> (\<forall>l. rs_status m \<noteq> result_failed \<and> rs_tablesLocation m = Some l \<longrightarrow>
                     extractedTablesLocation d' = Some l)
              \<and> getExtractJob (cs_jobs (collectExtractResults consume ack limit docs jobs q))
                   (rs_jobId m) = Some j'
              \<and> j_status j' = (if rs_status m = result_failed
                                then job_failed else job_completed))"
    using collect_batch_marks [where consume = consume and limit = limit and q = q and i = i
        and m = m and jobs = jobs and docs = docs and ack = ack]
    by blast
  have 8: "cs_queue (collectExtractResults consume ack limit docs jobs q)
          = foldl (\<lambda>q' x. ack (qr_queueMessageId x) q') (snd (consume limit q))
              (fst (consume limit q))"
    by (simp add: collectExtractResults_def split_beta collect_fold_queue)
  from 1 2 3 4 5 6 7 8 show ?thesis by blast
qed



theorem no_tables_like_ok_witness:
  "getExtractJob (cs_jobs collect0) (rs_jobId result1) = Some job1
   \<and> get_doc (cs_docs collect0) (rs_docId result1) = Some doc_ok
   \<and> rs_status result1 \<noteq> result_failed
   \<and> cs_ok (collect_step (\<lambda>i q. i # q) collect0
               \<lparr> qr_queueMessageId = ''m1'', qr_message = result1 \<rparr>) = 1
   \<and> rs_status (result1\<lparr>rs_status := result_failed\<rparr>) = result_failed
   \<and> cs_failed (collect_step (\<lambda>i q. i # q) collect0
               \<lparr> qr_queueMessageId = ''m1'', qr_message = result1\<lparr>rs_status := result_failed\<rparr> \<rparr>) = 1
   \<and> fst (batch1 10 []) = [] @ \<lparr> qr_queueMessageId = ''m1'', qr_message = result1 \<rparr> # []
   \<and> getExtractJob [job1] (rs_jobId result1) \<noteq> None
   \<and> get_doc [doc_ok] (rs_docId result1) \<noteq> None
   \<and> lastStatus doc_ok = Some downloaded_ok
   \<and> (\<exists>d' j'. get_doc (cs_docs (collectExtractResults batch1 (\<lambda>i q. i # q) 10 [doc_ok] [job1] []))
                   (rs_docId result1) = Some d'
          \<and> lastStatus d' = Some extracted_ok
          \<and> getExtractJob (cs_jobs (collectExtractResults batch1 (\<lambda>i q. i # q) 10 [doc_ok] [job1] []))
               (rs_jobId result1) = Some j'
          \<and> j_status j' = job_completed)"
proof -
  have j: "getExtractJob (cs_jobs collect0) (rs_jobId result1) = Some job1"
    by (simp add: getExtractJob_def collect0_def result1_def job1_def)
  have d: "get_doc (cs_docs collect0) (rs_docId result1) = Some doc_ok"
    by (simp add: get_doc_def collect0_def result1_def doc_ok_def doc1_def)
  have s: "rs_status result1 \<noteq> result_failed" by (simp add: result1_def)
  have z: "cs_ok collect0 = 0" "cs_failed collect0 = 0" by (simp_all add: collect0_def)
  have j': "getExtractJob (cs_jobs collect0) (rs_jobId (result1\<lparr>rs_status := result_failed\<rparr>)) = Some job1"
    using j by simp
  have d': "get_doc (cs_docs collect0) (rs_docId (result1\<lparr>rs_status := result_failed\<rparr>)) = Some doc_ok"
    using d by simp
  have b: "fst (batch1 10 []) = [] @ \<lparr> qr_queueMessageId = ''m1'', qr_message = result1 \<rparr> # []"
    by (simp add: batch1_def)
  have k: "getExtractJob [job1] (rs_jobId result1) \<noteq> None" "get_doc [doc_ok] (rs_docId result1) \<noteq> None"
    using j d by (simp_all add: collect0_def)
  have o: "lastStatus doc_ok = Some downloaded_ok" by (simp add: doc_ok_def)
  note th = no_tables_like_ok [OF j d, where ack = "\<lambda>i q. i # q" and i = "''m1''"
      and consume = batch1 and limit = 10 and docs = "[doc_ok]" and jobs = "[job1]" and q = "[]"]
  from th s z
  have 1: "cs_ok (collect_step (\<lambda>i q. i # q) collect0
               \<lparr> qr_queueMessageId = ''m1'', qr_message = result1 \<rparr>) = 1"
    by simp
  from no_tables_like_ok [OF j' d', of "\<lambda>i q. i # q" "''m1''"] z
  have 2: "cs_failed (collect_step (\<lambda>i q. i # q) collect0
               \<lparr> qr_queueMessageId = ''m1'', qr_message = result1\<lparr>rs_status := result_failed\<rparr> \<rparr>) = 1"
    by simp
  note whole = th [THEN conjunct2, THEN conjunct2, THEN conjunct2, THEN conjunct2, THEN conjunct2,
      THEN conjunct2, THEN conjunct2, THEN conjunct1, THEN spec, THEN spec, THEN mp, of "[]" "[]"]
  have 3: "\<exists>d' j'. get_doc (cs_docs (collectExtractResults batch1 (\<lambda>i q. i # q) 10 [doc_ok] [job1] []))
                   (rs_docId result1) = Some d'
          \<and> lastStatus d' = Some extracted_ok
          \<and> getExtractJob (cs_jobs (collectExtractResults batch1 (\<lambda>i q. i # q) 10 [doc_ok] [job1] []))
               (rs_jobId result1) = Some j'
          \<and> j_status j' = job_completed"
    using whole b k s by auto
  from j d s 1 2 b k o 3 show ?thesis by simp
qed

section \<open>Consuming from the queue\<close>
























section \<open>The attempt loop\<close>

lemma attempt_loop_404_now:
  assumes "k \<le> maxA" "env k = Returned r" "ar_statusCode r = 404"
  shows "attempt_loop maxA env clock item fp k =
           (Some (failed_result item (ar_resolvedUrl r) ''HTTP 404'' k (clock k)), [Attempt k])"
  using assms by (subst attempt_loop.simps) simp

lemma attempt_loop_retry:
  assumes "retries maxA env a"
  shows "attempt_loop maxA env clock item fp a =
           (fst (attempt_loop maxA env clock item fp (a + 1)),
            Attempt a # Sleep (backoff_ms a) # snd (attempt_loop maxA env clock item fp (a + 1)))"
  using assms
  by (subst attempt_loop.simps) (auto simp: retries_def Let_def split: attempt_outcome.splits)

lemma attempt_loop_stop:
  assumes "a \<le> maxA" "\<not> retries maxA env a"
  shows "snd (attempt_loop maxA env clock item fp a) = [Attempt a]"
  using assms
  by (subst attempt_loop.simps) (auto simp: retries_def Let_def split: attempt_outcome.splits)

lemma attempt_loop_prefix:
  assumes "k \<le> maxA" "env k = Returned r" "ar_statusCode r = 404" "a0 \<le> k"
  shows "\<exists>pre. (\<forall>n \<ge> k. Attempt n \<notin> set pre)
           \<and> (attempt_loop maxA env clock item fp a0
                 = (Some (failed_result item (ar_resolvedUrl r) ''HTTP 404'' k (clock k)),
                    pre @ [Attempt k])
               \<or> snd (attempt_loop maxA env clock item fp a0) = pre)"
  using assms(4)
proof (induction "nat (k - a0)" arbitrary: a0)
  case 0
  then have "a0 = k" by simp
  then have "attempt_loop maxA env clock item fp a0 =
           (Some (failed_result item (ar_resolvedUrl r) ''HTTP 404'' k (clock k)), [] @ [Attempt k])"
    using attempt_loop_404_now [where env = env and k = k and r = r, OF assms(1,2,3)] by simp
  then show ?case by (intro exI [of _ "[]"]) simp
next
  case (Suc d)
  then have lt: "a0 < k" and nxt: "a0 + 1 \<le> k" and d: "d = nat (k - (a0 + 1))" by simp_all
  have le: "a0 \<le> maxA" using lt assms(1) by simp
  show ?case
  proof (cases "retries maxA env a0")
    case True
    from Suc.hyps(1) [OF d nxt]
    obtain pre where pre: "\<forall>n \<ge> k. Attempt n \<notin> set pre"
      "attempt_loop maxA env clock item fp (a0 + 1)
         = (Some (failed_result item (ar_resolvedUrl r) ''HTTP 404'' k (clock k)), pre @ [Attempt k])
       \<or> snd (attempt_loop maxA env clock item fp (a0 + 1)) = pre"
      by blast
    show ?thesis
      using pre lt unfolding attempt_loop_retry [OF True]
      by (intro exI [of _ "Attempt a0 # Sleep (backoff_ms a0) # pre"]) auto
  next
    case False
    from attempt_loop_stop [OF le False]
    show ?thesis using lt by (intro exI [of _ "[Attempt a0]"]) simp
  qed
qed

text \<open>
  C5. If the response of attempt k, within maxDownloadAttempts, has status 404, the loop
  run from k ends at once with the result download_failed and error HTTP 404 for attempt k,
  having made that one attempt and no sleep, however many attempts remain.  The loop run
  from an earlier attempt makes no attempt after k, and when it reaches attempt k that
  attempt is its last effect (no sleep follows) and its result is that of attempt k.
\<close>

theorem not_found_stops_retries:
  assumes "k \<le> maxA" and "env k = Returned r" and "ar_statusCode r = 404" and "a0 \<le> k"
  shows "attempt_loop maxA env clock item fp k =
           (Some \<lparr> dr_docId = wi_docId item, dr_url = wi_url item,
                    dr_resolvedUrl = ar_resolvedUrl r, dr_status = DR_download_failed,
                    dr_sha256 = None, dr_bytes = None, dr_contentType = None,
                    dr_rawLocation = None, dr_etag = None, dr_lastModified = None,
                    dr_error = Some ''HTTP 404'', dr_attempt = k, dr_downloadedAt = clock k \<rparr>,
            [Attempt k])
     \<and> (\<exists>pre. (\<forall>n \<ge> k. Attempt n \<notin> set pre)
           \<and> (attempt_loop maxA env clock item fp a0
                 = (fst (attempt_loop maxA env clock item fp k), pre @ [Attempt k])
               \<or> snd (attempt_loop maxA env clock item fp a0) = pre))
     \<and> (\<forall>n > k. Attempt n \<notin> set (snd (attempt_loop maxA env clock item fp a0)))
     \<and> (Attempt k \<in> set (snd (attempt_loop maxA env clock item fp a0)) \<longrightarrow>
           last (snd (attempt_loop maxA env clock item fp a0)) = Attempt k
           \<and> fst (attempt_loop maxA env clock item fp a0) = fst (attempt_loop maxA env clock item fp k))"
proof -
  let ?r404 = "failed_result item (ar_resolvedUrl r) ''HTTP 404'' k (clock k)"
  have now: "attempt_loop maxA env clock item fp k = (Some ?r404, [Attempt k])"
    using attempt_loop_404_now [where env = env and k = k and r = r, OF assms(1,2,3)] .
  from attempt_loop_prefix [where env = env and k = k and r = r and clock = clock and item = item and fp = fp, OF assms]
  obtain pre where pre: "\<forall>n \<ge> k. Attempt n \<notin> set pre"
    "attempt_loop maxA env clock item fp a0 = (Some ?r404, pre @ [Attempt k])
     \<or> snd (attempt_loop maxA env clock item fp a0) = pre"
    by blast
  have 2: "\<exists>pre. (\<forall>n \<ge> k. Attempt n \<notin> set pre)
           \<and> (attempt_loop maxA env clock item fp a0
                 = (fst (attempt_loop maxA env clock item fp k), pre @ [Attempt k])
               \<or> snd (attempt_loop maxA env clock item fp a0) = pre)"
    using pre by (auto simp: now)
  have 3: "\<forall>n > k. Attempt n \<notin> set (snd (attempt_loop maxA env clock item fp a0))"
    using pre by auto
  have 4: "Attempt k \<in> set (snd (attempt_loop maxA env clock item fp a0)) \<longrightarrow>
           last (snd (attempt_loop maxA env clock item fp a0)) = Attempt k
           \<and> fst (attempt_loop maxA env clock item fp a0) = fst (attempt_loop maxA env clock item fp k)"
    using pre by (auto simp: now)
  from now 2 3 4 show ?thesis by (simp add: failed_result_def)
qed

theorem not_found_stops_retries_witness:
  "(2::int) \<le> 3 \<and> attempts_example 2 = Returned not_found \<and> ar_statusCode not_found = 404
   \<and> (1::int) \<le> 2
   \<and> attempt_loop 3 attempts_example (\<lambda>a. ''2026-02-20T01:00:00.000Z'') (to_work_item doc1)
         ''data/raw/d1.pdf'' 2
       = (Some (failed_result (to_work_item doc1) (Some ''https://x/a.pdf'') ''HTTP 404'' 2
                  ''2026-02-20T01:00:00.000Z''),
          [Attempt 2])
   \<and> Attempt 2 \<in> set (snd (attempt_loop 3 attempts_example (\<lambda>a. ''2026-02-20T01:00:00.000Z'')
                              (to_work_item doc1) ''data/raw/d1.pdf'' 1))
   \<and> last (snd (attempt_loop 3 attempts_example (\<lambda>a. ''2026-02-20T01:00:00.000Z'')
                   (to_work_item doc1) ''data/raw/d1.pdf'' 1)) = Attempt 2
   \<and> Attempt 3 \<notin> set (snd (attempt_loop 3 attempts_example (\<lambda>a. ''2026-02-20T01:00:00.000Z'')
                              (to_work_item doc1) ''data/raw/d1.pdf'' 1))"
proof -
  let ?loop = "attempt_loop 3 attempts_example (\<lambda>a. ''2026-02-20T01:00:00.000Z'')
                 (to_work_item doc1) ''data/raw/d1.pdf''"
  have h: "(2::int) \<le> 3" "attempts_example 2 = Returned not_found" "ar_statusCode not_found = 404"
    "(1::int) \<le> 2"
    by (simp_all add: attempts_example_def not_found_def)
  have r: "retries 3 attempts_example 1"
    by (simp add: retries_def attempts_example_def)
  note th = not_found_stops_retries [where env = attempts_example and r = not_found, OF h,
      of "\<lambda>a. ''2026-02-20T01:00:00.000Z''" "to_work_item doc1" "''data/raw/d1.pdf''"]
  have now: "?loop 2 = (Some (failed_result (to_work_item doc1) (Some ''https://x/a.pdf'') ''HTTP 404'' 2
                  ''2026-02-20T01:00:00.000Z''), [Attempt 2])"
    using th [THEN conjunct1] by (simp add: failed_result_def not_found_def)
  have m: "Attempt 2 \<in> set (snd (?loop 1))"
    using attempt_loop_retry [OF r, of "\<lambda>a. ''2026-02-20T01:00:00.000Z''" "to_work_item doc1" "''data/raw/d1.pdf''"] now
    by simp
  from th m have l: "last (snd (?loop 1)) = Attempt 2" by blast
  from th have n: "Attempt 3 \<notin> set (snd (?loop 1))" by simp
  from h now m l n show ?thesis by blast
qed

section \<open>Temporary files\<close>

text \<open>
  C6 (as amended). A download attempt that gets a successful response with a body writes
  it to the sibling path target.part and renames that to the target only when the stream
  has completed; when the stream or the rename fails it tries to delete the temporary file
  and throws, leaving the target as it was.  Such an attempt leaves no target.part when
  the rename was made or the deletion succeeded.  Every other attempt (fetch throws, the
  response is not successful or has no body, the directory cannot be made) leaves the file
  system as it was, a target.part from before included.  In every case the target changes
  only by receiving the whole body, so a target that was absent or completely written is
  so afterwards, and no other path changes.  Hence an attempt started with no target.part
  and with the target absent or completely written ends in such a state, when the
  deletion does not fail.
\<close>

theorem download_leaves_no_partial:
  "(streams w body \<and> (w_unlink w = IoOk \<or> (w_stream w = StreamDone \<and> w_rename w = IoOk)) \<longrightarrow>
       snd (downloadAttempt h w outputPath fs) (outputPath @ ''.part'') = None)
   \<and> ((\<forall>b. \<not> streams w b) \<longrightarrow> snd (downloadAttempt h w outputPath fs) = fs)
   \<and> (streams w body \<and> w_stream w = StreamDone \<and> w_rename w = IoOk \<longrightarrow>
         snd (downloadAttempt h w outputPath fs) outputPath = Some (Complete body)
         \<and> (\<exists>r. fst (downloadAttempt h w outputPath fs) = Returned r
                \<and> ar_sha256 r = Some (h body) \<and> ar_bytes r = Some (int (length body))))
   \<and> (streams w body \<and> \<not> (w_stream w = StreamDone \<and> w_rename w = IoOk) \<longrightarrow>
         snd (downloadAttempt h w outputPath fs) outputPath = fs outputPath
         \<and> (\<exists>m. fst (downloadAttempt h w outputPath fs) = Threw m))
   \<and> (snd (downloadAttempt h w outputPath fs) outputPath \<noteq> fs outputPath \<longrightarrow>
         (\<exists>b. streams w b \<and> w_stream w = StreamDone \<and> w_rename w = IoOk))
   \<and> (target_sound outputPath fs \<longrightarrow>
         target_sound outputPath (snd (downloadAttempt h w outputPath fs)))
   \<and> (no_partial outputPath fs \<and> w_unlink w = IoOk \<longrightarrow>
         no_partial outputPath (snd (downloadAttempt h w outputPath fs)))
   \<and> (\<forall>p. p \<noteq> outputPath \<and> p \<noteq> outputPath @ ''.part'' \<longrightarrow>
         snd (downloadAttempt h w outputPath fs) p = fs p)"
  by (auto simp: downloadAttempt_def no_partial_def target_sound_def streams_def
      cleanup_and_rethrow_def unlink_if_exists_def Let_def
      split: fetch_outcome.splits option.splits io_outcome.splits stream_outcome.splits
             disk_file.splits if_splits)

text \<open>
  The claim as written says that no target.part remains after any attempt.  A target.part
  left by a run that was killed is still there after an attempt that gets a 404, which
  returns before it touches a file; and the file written by a stream that broke is still
  there when its deletion throws.
\<close>

theorem download_stale_partial_counterexample:
  "fst (downloadAttempt (\<lambda>b. ''digest'') world_missing ''raw/d1.pdf''
          [''raw/d1.pdf.part'' \<mapsto> Partial [37, 80]])
     = Returned (status_only 404 ''https://x/a.pdf'')
   \<and> snd (downloadAttempt (\<lambda>b. ''digest'') world_missing ''raw/d1.pdf''
            [''raw/d1.pdf.part'' \<mapsto> Partial [37, 80]]) ''raw/d1.pdf.part''
     = Some (Partial [37, 80])
   \<and> fst (downloadAttempt (\<lambda>b. ''digest'') world_stuck ''raw/d1.pdf'' Map.empty) = Threw ''EPERM''
   \<and> snd (downloadAttempt (\<lambda>b. ''digest'') world_stuck ''raw/d1.pdf'' Map.empty) ''raw/d1.pdf.part''
     = Some (Partial [37, 80])"
  by (simp add: downloadAttempt_def cleanup_and_rethrow_def unlink_if_exists_def
      world_missing_def world_stuck_def response_example_def response_ok_def)

theorem download_leaves_no_partial_witness:
  "no_partial ''raw/d1.pdf'' Map.empty \<and> target_sound ''raw/d1.pdf'' Map.empty
   \<and> streams world_broken [37, 80, 68, 70] \<and> w_unlink world_broken = IoOk
   \<and> w_stream world_broken \<noteq> StreamDone
   \<and> no_partial ''raw/d1.pdf'' (snd (downloadAttempt (\<lambda>b. ''digest'') world_broken ''raw/d1.pdf'' Map.empty))
   \<and> snd (downloadAttempt (\<lambda>b. ''digest'') world_broken ''raw/d1.pdf'' Map.empty) ''raw/d1.pdf'' = None
   \<and> (\<exists>m. fst (downloadAttempt (\<lambda>b. ''digest'') world_broken ''raw/d1.pdf'' Map.empty) = Threw m)
   \<and> streams world_fine [37, 80, 68, 70]
   \<and> w_stream world_fine = StreamDone \<and> w_rename world_fine = IoOk
   \<and> snd (downloadAttempt (\<lambda>b. ''digest'') world_fine ''raw/d1.pdf'' Map.empty) ''raw/d1.pdf''
        = Some (Complete [37, 80, 68, 70])
   \<and> snd (downloadAttempt (\<lambda>b. ''digest'') world_fine ''raw/d1.pdf'' Map.empty) (''raw/d1.pdf'' @ ''.part'')
        = None
   \<and> target_sound ''raw/d1.pdf'' (snd (downloadAttempt (\<lambda>b. ''digest'') world_fine ''raw/d1.pdf'' Map.empty))
   \<and> ''raw/d2.pdf'' \<noteq> ''raw/d1.pdf'' \<and> ''raw/d2.pdf'' \<noteq> ''raw/d1.pdf'' @ ''.part''
   \<and> snd (downloadAttempt (\<lambda>b. ''digest'') world_fine ''raw/d1.pdf'' Map.empty) ''raw/d2.pdf'' = None
   \<and> snd (downloadAttempt (\<lambda>b. ''digest'') world_missing ''raw/d1.pdf'' Map.empty) = Map.empty"
proof -
  have i: "no_partial ''raw/d1.pdf'' Map.empty" "target_sound ''raw/d1.pdf'' Map.empty"
    by (simp_all add: no_partial_def target_sound_def)
  have b: "streams world_broken [37, 80, 68, 70]" "w_unlink world_broken = IoOk"
    "w_stream world_broken \<noteq> StreamDone"
    by (simp_all add: streams_def world_broken_def response_example_def response_ok_def)
  have f: "streams world_fine [37, 80, 68, 70]" "w_stream world_fine = StreamDone"
    "w_rename world_fine = IoOk"
    by (simp_all add: streams_def world_fine_def response_example_def response_ok_def)
  have n: "\<forall>b. \<not> streams world_missing b"
    by (simp add: streams_def world_missing_def response_example_def response_ok_def)
  have p: "''raw/d2.pdf'' \<noteq> ''raw/d1.pdf''" "''raw/d2.pdf'' \<noteq> ''raw/d1.pdf'' @ ''.part''"
    by simp_all
  note tb = download_leaves_no_partial [of world_broken "[37, 80, 68, 70]" "\<lambda>b. ''digest''"
      "''raw/d1.pdf''" Map.empty]
  note tf = download_leaves_no_partial [of world_fine "[37, 80, 68, 70]" "\<lambda>b. ''digest''"
      "''raw/d1.pdf''" Map.empty]
  note tm = download_leaves_no_partial [of world_missing "[37, 80, 68, 70]" "\<lambda>b. ''digest''"
      "''raw/d1.pdf''" Map.empty]
  from tb i b have 1:
    "no_partial ''raw/d1.pdf'' (snd (downloadAttempt (\<lambda>b. ''digest'') world_broken ''raw/d1.pdf'' Map.empty))"
    "snd (downloadAttempt (\<lambda>b. ''digest'') world_broken ''raw/d1.pdf'' Map.empty) ''raw/d1.pdf'' = None"
    "\<exists>m. fst (downloadAttempt (\<lambda>b. ''digest'') world_broken ''raw/d1.pdf'' Map.empty) = Threw m"
    by simp_all
  from tf f have 2:
    "snd (downloadAttempt (\<lambda>b. ''digest'') world_fine ''raw/d1.pdf'' Map.empty) ''raw/d1.pdf''
        = Some (Complete [37, 80, 68, 70])"
    "snd (downloadAttempt (\<lambda>b. ''digest'') world_fine ''raw/d1.pdf'' Map.empty) (''raw/d1.pdf'' @ ''.part'')
        = None"
    by blast+
  from tf i have 3:
    "target_sound ''raw/d1.pdf'' (snd (downloadAttempt (\<lambda>b. ''digest'') world_fine ''raw/d1.pdf'' Map.empty))"
    by blast
  from tf p have 4:
    "snd (downloadAttempt (\<lambda>b. ''digest'') world_fine ''raw/d1.pdf'' Map.empty) ''raw/d2.pdf'' = None"
    by (metis (full_types))
  from tm n have 5:
    "snd (downloadAttempt (\<lambda>b. ''digest'') world_missing ''raw/d1.pdf'' Map.empty) = Map.empty"
    by blast
  from i b f p 1 2 3 4 5 show ?thesis by blast
qed

end
